theory Spec2Isabelle
  imports Complex_Main "HOL-Library.Multiset"
begin

section \<open>The stock ledger of the SIGE API (src/api/main.py)\<close>

text \<open>
  The API keeps three tables: \<open>produto\<close> and \<open>saldo_estoque\<close>, both with primary key
  \<open>sku_id\<close>, and \<open>movimentacao_estoque\<close>, whose primary key \<open>mov_id\<close> is assigned by
  an auto-increment sequence. A table is the list of its rows in insertion order. Python
  integers are unbounded (\<open>int\<close>), a string is the list of its bytes, a timestamp
  (\<open>func.now()\<close>) is a natural number handed to each endpoint by its caller, and the
  manufacturing cost, which is stored and returned but never computed with, is carried as
  a real number.
\<close>

subsection \<open>Tables\<close>

record produto_row =
  produto_sku_id :: string
  produto_nome :: string
  nivel_minimo :: int
  nivel_maximo :: int
  custo_fabricacao :: real

record saldo_row =
  saldo_sku_id :: string
  saldo_atual :: int
  ultima_atualizacao :: nat

record mov_row =
  mov_id :: nat
  mov_sku_id :: string
  data_movimentacao :: nat
  mov_tipo_movimentacao :: string
  mov_quantidade :: int

record db =
  tbl_produto :: "produto_row list"
  tbl_saldo_estoque :: "saldo_row list"
  tbl_movimentacao_estoque :: "mov_row list"
  mov_id_seq :: nat

text \<open>\<open>metadata.create_all\<close> on a fresh database: three empty tables, sequence at 1.\<close>

definition empty_db :: db where
  "empty_db = \<lparr>tbl_produto = [], tbl_saldo_estoque = [],
               tbl_movimentacao_estoque = [], mov_id_seq = 1\<rparr>"

subsection \<open>Request bodies (the pydantic models)\<close>

record ProdutoCreate =
  pc_sku_id :: string
  pc_nome :: string
  pc_nivel_minimo :: int
  pc_nivel_maximo :: int
  pc_custo_fabricacao :: real

record MovimentacaoCreate =
  mc_sku_id :: string
  mc_tipo_movimentacao :: string
  mc_quantidade :: int

subsection \<open>Errors and responses\<close>

text \<open>
  What the storage refuses. The driver refuses a string parameter that holds a NUL byte
  (\<open>ValueError\<close>, raised before the statement is sent); the engine refuses a value
  outside the 32-bit range of an \<open>Integer\<close> column and a sequence that has run out
  (\<open>DataError\<close>), and a second row with a primary key already taken
  (\<open>IntegrityError\<close>).
\<close>

datatype db_error = ValueError | DataError | IntegrityError

text \<open>
  An \<open>HTTPException\<close> carries its status code and its detail; a detail is one constructor
  per message of the source, with the interpolated value as its argument. An exception
  that no handler of the endpoint catches reaches the framework, which answers 500.
\<close>

datatype detail =
    SKU_ja_cadastrado
  | Tipo_de_movimentacao_invalido
  | SKU_nao_encontrado_no_saldo
  | Estoque_insuficiente_Saldo_atual int
  | Erro_no_banco_de_dados db_error
  | SKU_nao_encontrado

datatype failure = HTTPException nat detail | Uncaught db_error


record cadastro_resp =
  cad_sku :: string

record mov_resp =
  resp_tipo :: string
  resp_sku :: string
  novo_saldo :: int
  alerta_estoque_minimo :: bool

subsection \<open>Statements\<close>

definition int4 :: "int \<Rightarrow> bool" where
  "int4 v = (- 2147483648 \<le> v \<and> v \<le> 2147483647)"

definition nul_free :: "string \<Rightarrow> bool" where
  "nul_free s = (CHR 0x00 \<notin> set s)"

text \<open>The first row of a table with a given key, if there is one.\<close>

definition select_produto :: "db \<Rightarrow> string \<Rightarrow> produto_row option" where
  "select_produto d k = find (\<lambda>r. produto_sku_id r = k) (tbl_produto d)"

definition select_saldo :: "db \<Rightarrow> string \<Rightarrow> saldo_row option" where
  "select_saldo d k = find (\<lambda>r. saldo_sku_id r = k) (tbl_saldo_estoque d)"

text \<open>
  \<open>db.execute(select(t).where(t.c.sku_id == k)).first()\<close>: the driver binds the key, the
  engine returns the first row.
\<close>

definition fetch_produto :: "db \<Rightarrow> string \<Rightarrow> db_error + produto_row option" where
  "fetch_produto d k = (if nul_free k then Inr (select_produto d k) else Inl ValueError)"

definition fetch_saldo :: "db \<Rightarrow> string \<Rightarrow> db_error + saldo_row option" where
  "fetch_saldo d k = (if nul_free k then Inr (select_saldo d k) else Inl ValueError)"

text \<open>
  The inserts into the keyed tables: the strings are bound, the integers are stored in
  \<open>Integer\<close> columns, the primary key must be free.
\<close>

definition insert_produto :: "produto_row \<Rightarrow> db \<Rightarrow> db_error + db" where
  "insert_produto r d =
     (if \<not> (nul_free (produto_sku_id r) \<and> nul_free (produto_nome r)) then Inl ValueError
      else if \<not> (int4 (nivel_minimo r) \<and> int4 (nivel_maximo r)) then Inl DataError
      else if select_produto d (produto_sku_id r) \<noteq> None then Inl IntegrityError
      else Inr (d\<lparr>tbl_produto := tbl_produto d @ [r]\<rparr>))"

definition insert_saldo :: "saldo_row \<Rightarrow> db \<Rightarrow> db_error + db" where
  "insert_saldo r d =
     (if \<not> nul_free (saldo_sku_id r) then Inl ValueError
      else if \<not> int4 (saldo_atual r) then Inl DataError
      else if select_saldo d (saldo_sku_id r) \<noteq> None then Inl IntegrityError
      else Inr (d\<lparr>tbl_saldo_estoque := tbl_saldo_estoque d @ [r]\<rparr>))"

text \<open>
  The movement insert gives no \<open>mov_id\<close> and no \<open>data_movimentacao\<close>: the sequence and
  the column default \<open>func.now()\<close> fill them in. The quantity is checked before the
  sequence is asked, and the sequence ends at the largest 32-bit value. The direction
  that reaches this statement is \<open>'E'\<close> or \<open>'S'\<close>, which its column holds.
\<close>

definition with_movimentacao :: "nat \<Rightarrow> string \<Rightarrow> string \<Rightarrow> int \<Rightarrow> db \<Rightarrow> db" where
  "with_movimentacao now k t q d =
     d\<lparr>tbl_movimentacao_estoque := tbl_movimentacao_estoque d @
          [\<lparr>mov_id = mov_id_seq d, mov_sku_id = k, data_movimentacao = now,
            mov_tipo_movimentacao = t, mov_quantidade = q\<rparr>],
       mov_id_seq := Suc (mov_id_seq d)\<rparr>"

definition insert_movimentacao ::
  "nat \<Rightarrow> string \<Rightarrow> string \<Rightarrow> int \<Rightarrow> db \<Rightarrow> db_error + db" where
  "insert_movimentacao now k t q d =
     (if \<not> nul_free k then Inl ValueError
      else if \<not> int4 q then Inl DataError
      else if mov_id_seq d > 2147483647 then Inl DataError
      else Inr (with_movimentacao now k t q d))"

text \<open>\<open>update(saldo_estoque).where(sku_id == k).values(saldo_atual = v, ...)\<close>.\<close>

definition with_saldo :: "string \<Rightarrow> int \<Rightarrow> nat \<Rightarrow> db \<Rightarrow> db" where
  "with_saldo k v now d =
     d\<lparr>tbl_saldo_estoque :=
          map (\<lambda>r. if saldo_sku_id r = k
                   then r\<lparr>saldo_atual := v, ultima_atualizacao := now\<rparr> else r)
              (tbl_saldo_estoque d)\<rparr>"

definition update_saldo :: "string \<Rightarrow> int \<Rightarrow> nat \<Rightarrow> db \<Rightarrow> db_error + db" where
  "update_saldo k v now d =
     (if \<not> nul_free k then Inl ValueError
      else if \<not> int4 v then Inl DataError
      else Inr (with_saldo k v now d))"

text \<open>
  \<open>db.rollback()\<close> gives back the tables as they were committed; a number taken from the
  sequence is not given back.
\<close>

definition rollback :: "db \<Rightarrow> db \<Rightarrow> db" where
  "rollback committed working = committed\<lparr>mov_id_seq := mov_id_seq working\<rparr>"

subsection \<open>Endpoints\<close>

text \<open>
  Each endpoint takes the committed database and returns its outcome with the committed
  database afterwards: the working copy on \<open>db.commit()\<close>, the rolled-back one when its
  handler runs, the one it started from when it raises before writing. An
  \<open>HTTPException\<close> raised inside a \<open>try\<close> block passes through the handler, which rolls
  back and raises it again; any other exception raised there becomes an \<open>HTTPException\<close>
  with status 500. The uniqueness check of \<open>cadastrar_produto\<close> and the query of
  \<open>consultar_saldo\<close> run outside any \<open>try\<close> block.
\<close>

definition cadastrar_produto ::
  "nat \<Rightarrow> ProdutoCreate \<Rightarrow> db \<Rightarrow> (failure + cadastro_resp) \<times> db" where
  "cadastrar_produto now produto d =
     (case fetch_produto d (pc_sku_id produto) of
        Inl e \<Rightarrow> (Inl (Uncaught e), d)
      | Inr (Some produto_row) \<Rightarrow> (Inl (HTTPException 400 SKU_ja_cadastrado), d)
      | Inr None \<Rightarrow>
        (case insert_produto
                \<lparr>produto_sku_id = pc_sku_id produto, produto_nome = pc_nome produto,
                 nivel_minimo = pc_nivel_minimo produto,
                 nivel_maximo = pc_nivel_maximo produto,
                 custo_fabricacao = pc_custo_fabricacao produto\<rparr> d of
           Inl e \<Rightarrow> (Inl (HTTPException 500 (Erro_no_banco_de_dados e)), rollback d d)
         | Inr d1 \<Rightarrow>
            (case insert_saldo
                    \<lparr>saldo_sku_id = pc_sku_id produto, saldo_atual = 0,
                     ultima_atualizacao = now\<rparr> d1 of
               Inl e \<Rightarrow> (Inl (HTTPException 500 (Erro_no_banco_de_dados e)), rollback d d1)
             | Inr d2 \<Rightarrow> (Inr \<lparr>cad_sku = pc_sku_id produto\<rparr>, d2))))"

definition lancar_movimentacao ::
  "nat \<Rightarrow> MovimentacaoCreate \<Rightarrow> db \<Rightarrow> (failure + mov_resp) \<times> db" where
  "lancar_movimentacao now mov d =
     (if mc_tipo_movimentacao mov \<notin> set [''E'', ''S'']
      then (Inl (HTTPException 400 Tipo_de_movimentacao_invalido), d)
      else
        (case fetch_saldo d (mc_sku_id mov) of
           Inl e \<Rightarrow> (Inl (HTTPException 500 (Erro_no_banco_de_dados e)), rollback d d)
         | Inr None \<Rightarrow> (Inl (HTTPException 404 SKU_nao_encontrado_no_saldo), rollback d d)
         | Inr (Some saldo_atual_row) \<Rightarrow>
            (let saldo = saldo_atual saldo_atual_row in
             case (if mc_tipo_movimentacao mov = ''E''
                   then Inr (saldo + mc_quantidade mov)
                   else if mc_tipo_movimentacao mov = ''S''
                   then (if mc_quantidade mov > saldo
                         then Inl (HTTPException 400 (Estoque_insuficiente_Saldo_atual saldo))
                         else Inr (saldo - mc_quantidade mov))
                   else Inr 0) of
               Inl e \<Rightarrow> (Inl e, rollback d d)
             | Inr novo \<Rightarrow>
                (case insert_movimentacao now (mc_sku_id mov)
                        (mc_tipo_movimentacao mov) (mc_quantidade mov) d of
                   Inl e \<Rightarrow> (Inl (HTTPException 500 (Erro_no_banco_de_dados e)), rollback d d)
                 | Inr d1 \<Rightarrow>
                    (case update_saldo (mc_sku_id mov) novo now d1 of
                       Inl e \<Rightarrow>
                         (Inl (HTTPException 500 (Erro_no_banco_de_dados e)), rollback d d1)
                     | Inr d2 \<Rightarrow>
                        (case (if mc_tipo_movimentacao mov = ''S''
                               then (case fetch_produto d2 (mc_sku_id mov) of
                                       Inl e \<Rightarrow> Inl e
                                     | Inr None \<Rightarrow> Inr False
                                     | Inr (Some produto_row) \<Rightarrow>
                                         Inr (novo < nivel_minimo produto_row))
                               else Inr False) of
                           Inl e \<Rightarrow>
                             (Inl (HTTPException 500 (Erro_no_banco_de_dados e)), rollback d2 d2)
                         | Inr alerta_minimo \<Rightarrow>
                             (Inr \<lparr>resp_tipo = mc_tipo_movimentacao mov,
                                   resp_sku = mc_sku_id mov, novo_saldo = novo,
                                   alerta_estoque_minimo = alerta_minimo\<rparr>, d2)))))))"

definition consultar_saldo :: "string \<Rightarrow> db \<Rightarrow> (failure + saldo_row) \<times> db" where
  "consultar_saldo sku_id d =
     (case fetch_saldo d sku_id of
        Inl e \<Rightarrow> (Inl (Uncaught e), d)
      | Inr None \<Rightarrow> (Inl (HTTPException 404 SKU_nao_encontrado), d)
      | Inr (Some saldo_row) \<Rightarrow> (Inr saldo_row, d))"

record lista_item =
  item_SKU :: string
  item_Nome :: string
  item_Saldo_Atual :: int
  item_Nivel_Minimo :: int
  item_Custo :: real
  item_Ultima_Atualizacao :: nat

text \<open>
  The join of \<open>produto\<close> and \<open>saldo_estoque\<close> on the key. The query gives no order, so the
  result is the multiset of the joined rows.
\<close>

definition listar_produtos :: "db \<Rightarrow> lista_item multiset \<times> db" where
  "listar_produtos d =
     (mset (concat (map (\<lambda>p. map (\<lambda>s. \<lparr>item_SKU = produto_sku_id p, item_Nome = produto_nome p,
                                 item_Saldo_Atual = saldo_atual s,
                                 item_Nivel_Minimo = nivel_minimo p,
                                 item_Custo = custo_fabricacao p,
                                 item_Ultima_Atualizacao = ultima_atualizacao s\<rparr>)
                          (filter (\<lambda>s. saldo_sku_id s = produto_sku_id p)
                                  (tbl_saldo_estoque d)))
                  (tbl_produto d))), d)"

subsection \<open>Sequences of requests\<close>

text \<open>
  The four routes of the application, and a server that handles a list of requests one
  after the other, each with the time at which it arrives.
\<close>

datatype request =
    Register ProdutoCreate
  | PostMovement MovimentacaoCreate
  | GetBalance string
  | ListProducts

fun handle :: "nat \<Rightarrow> request \<Rightarrow> db \<Rightarrow> db" where
  "handle now (Register p) d = snd (cadastrar_produto now p d)"
| "handle now (PostMovement m) d = snd (lancar_movimentacao now m d)"
| "handle now (GetBalance k) d = snd (consultar_saldo k d)"
| "handle now ListProducts d = snd (listar_produtos d)"

fun serve :: "(nat \<times> request) list \<Rightarrow> db \<Rightarrow> db" where
  "serve [] d = d"
| "serve ((now, c) # cs) d = serve cs (handle now c d)"

text \<open>
  The movement log read back: an entry (\<open>'E'\<close>) counts with its quantity, a
  withdrawal (\<open>'S'\<close>) with its negation.
\<close>

definition signed_quantity :: "mov_row \<Rightarrow> int" where
  "signed_quantity m =
     (if mov_tipo_movimentacao m = ''E'' then mov_quantidade m
      else if mov_tipo_movimentacao m = ''S'' then - mov_quantidade m else 0)"

definition movement_sum :: "db \<Rightarrow> string \<Rightarrow> int" where
  "movement_sum d k =
     sum_list (map signed_quantity
       (filter (\<lambda>m. mov_sku_id m = k) (tbl_movimentacao_estoque d)))"

text \<open>A posting is well formed when its direction is one of the two and its quantity positive.\<close>

fun well_formed :: "request \<Rightarrow> bool" where
  "well_formed (PostMovement m) =
     (mc_tipo_movimentacao m \<in> set [''E'', ''S''] \<and> 0 < mc_quantidade m)"
| "well_formed _ = True"

text \<open>Requests that post a movement, as opposed to those that register or read.\<close>

fun is_posting :: "request \<Rightarrow> bool" where
  "is_posting (PostMovement m) = True"
| "is_posting _ = False"

subsection \<open>States that differ in maximum levels only\<close>

definition same_but_maximo :: "db \<Rightarrow> db \<Rightarrow> bool" where
  "same_but_maximo d d' =
     (list_all2 (\<lambda>p p'. p' = p\<lparr>nivel_maximo := nivel_maximo p'\<rparr>)
        (tbl_produto d) (tbl_produto d') \<and>
      tbl_saldo_estoque d' = tbl_saldo_estoque d \<and>
      tbl_movimentacao_estoque d' = tbl_movimentacao_estoque d \<and>
      mov_id_seq d' = mov_id_seq d)"

subsection \<open>Two sessions posting at once\<close>

text \<open>
  \<open>lancar_movimentacao\<close> cut at the points where another session can run: the
  validation together with \<open>SELECT ... FOR UPDATE\<close>, which waits while another session holds
  the lock on the row and then reads the committed balance; the check, the two writes
  and the commit, which publishes the writes and gives the lock back (as the rollback
  does when the check or a write raises); and the read of the minimum level after the
  commit. A session carries the time of its transaction, which is what \<open>func.now()\<close>
  yields in it.
\<close>

datatype session =
    Start nat MovimentacaoCreate
  | Locked nat MovimentacaoCreate int
  | Committed nat MovimentacaoCreate int
  | Done "failure + mov_resp"

text \<open>The rows a session holds locked.\<close>

fun holds :: "session \<Rightarrow> string list" where
  "holds (Locked now mov saldo) = [mc_sku_id mov]"
| "holds _ = []"

text \<open>Whether a session has returned, and how many steps it has left at most.\<close>

fun returned :: "session \<Rightarrow> bool" where
  "returned (Done r) = True"
| "returned _ = False"

fun rank :: "session \<Rightarrow> nat" where
  "rank (Start now mov) = 3"
| "rank (Locked now mov saldo) = 2"
| "rank (Committed now mov novo) = 1"
| "rank (Done r) = 0"

text \<open>
  One step of a session, given the rows locked by the others; \<open>None\<close> when the session
  cannot move (it waits for a lock, or it has returned).
\<close>

fun session_step :: "string list \<Rightarrow> session \<Rightarrow> db \<Rightarrow> (session \<times> db) option" where
  "session_step others (Start now mov) d =
     (if mc_tipo_movimentacao mov \<notin> set [''E'', ''S'']
      then Some (Done (Inl (HTTPException 400 Tipo_de_movimentacao_invalido)), d)
      else if nul_free (mc_sku_id mov) \<and> mc_sku_id mov \<in> set others then None
      else (case fetch_saldo d (mc_sku_id mov) of
              Inl e \<Rightarrow>
                Some (Done (Inl (HTTPException 500 (Erro_no_banco_de_dados e))), rollback d d)
            | Inr None \<Rightarrow>
                Some (Done (Inl (HTTPException 404 SKU_nao_encontrado_no_saldo)), rollback d d)
            | Inr (Some saldo_atual_row) \<Rightarrow>
                Some (Locked now mov (saldo_atual saldo_atual_row), d)))"
| "session_step others (Locked now mov saldo) d =
     (case (if mc_tipo_movimentacao mov = ''E''
            then Inr (saldo + mc_quantidade mov)
            else if mc_tipo_movimentacao mov = ''S''
            then (if mc_quantidade mov > saldo
                  then Inl (HTTPException 400 (Estoque_insuficiente_Saldo_atual saldo))
                  else Inr (saldo - mc_quantidade mov))
            else Inr 0) of
        Inl e \<Rightarrow> Some (Done (Inl e), rollback d d)
      | Inr novo \<Rightarrow>
          (case insert_movimentacao now (mc_sku_id mov)
                  (mc_tipo_movimentacao mov) (mc_quantidade mov) d of
             Inl e \<Rightarrow>
               Some (Done (Inl (HTTPException 500 (Erro_no_banco_de_dados e))), rollback d d)
           | Inr d1 \<Rightarrow>
              (case update_saldo (mc_sku_id mov) novo now d1 of
                 Inl e \<Rightarrow>
                   Some (Done (Inl (HTTPException 500 (Erro_no_banco_de_dados e))),
                         rollback d d1)
               | Inr d2 \<Rightarrow> Some (Committed now mov novo, d2))))"
| "session_step others (Committed now mov novo) d =
     (case (if mc_tipo_movimentacao mov = ''S''
            then (case fetch_produto d (mc_sku_id mov) of
                    Inl e \<Rightarrow> Inl e
                  | Inr None \<Rightarrow> Inr False
                  | Inr (Some produto_row) \<Rightarrow> Inr (novo < nivel_minimo produto_row))
            else Inr False) of
        Inl e \<Rightarrow>
          Some (Done (Inl (HTTPException 500 (Erro_no_banco_de_dados e))), rollback d d)
      | Inr alerta_minimo \<Rightarrow>
          Some (Done (Inr \<lparr>resp_tipo = mc_tipo_movimentacao mov,
                           resp_sku = mc_sku_id mov, novo_saldo = novo,
                           alerta_estoque_minimo = alerta_minimo\<rparr>), d))"
| "session_step others (Done r) d = None"

text \<open>
  A schedule says which of two sessions moves next; a session that cannot move lets the
  turn pass.
\<close>

datatype turn = First | Second

fun sched_step :: "turn \<Rightarrow> db \<times> session \<times> session \<Rightarrow> db \<times> session \<times> session" where
  "sched_step First (d, s1, s2) =
     (case session_step (holds s2) s1 d of
        None \<Rightarrow> (d, s1, s2)
      | Some (s1', d') \<Rightarrow> (d', s1', s2))"
| "sched_step Second (d, s1, s2) =
     (case session_step (holds s1) s2 d of
        None \<Rightarrow> (d, s1, s2)
      | Some (s2', d') \<Rightarrow> (d', s1, s2'))"

fun run_schedule :: "turn list \<Rightarrow> db \<times> session \<times> session \<Rightarrow> db \<times> session \<times> session" where
  "run_schedule [] c = c"
| "run_schedule (t # ts) c = run_schedule ts (sched_step t c)"

text \<open>
  Three turns for the first session, three for the second and three for the first again:
  after any schedule, these turns let both sessions return.
\<close>

definition finish :: "turn list" where
  "finish = [First, First, First] @ [Second, Second, Second] @ [First, First, First]"

subsection \<open>A worked state\<close>

text \<open>
  SKU \<open>A1\<close> registered with minimum 5, maximum 100 and cost 2, after an entry of 10 and
  a withdrawal of 7: the balance is 3.
\<close>

definition produto_A1 :: ProdutoCreate where
  "produto_A1 = \<lparr>pc_sku_id = ''A1'', pc_nome = ''Parafuso'', pc_nivel_minimo = 5,
                  pc_nivel_maximo = 100, pc_custo_fabricacao = 2\<rparr>"

definition scenario_db :: db where
  "scenario_db =
     \<lparr>tbl_produto = [\<lparr>produto_sku_id = ''A1'', produto_nome = ''Parafuso'',
                       nivel_minimo = 5, nivel_maximo = 100, custo_fabricacao = 2\<rparr>],
      tbl_saldo_estoque = [\<lparr>saldo_sku_id = ''A1'', saldo_atual = 3,
                             ultima_atualizacao = 3\<rparr>],
      tbl_movimentacao_estoque =
        [\<lparr>mov_id = 1, mov_sku_id = ''A1'', data_movimentacao = 2,
          mov_tipo_movimentacao = ''E'', mov_quantidade = 10\<rparr>,
         \<lparr>mov_id = 2, mov_sku_id = ''A1'', data_movimentacao = 3,
          mov_tipo_movimentacao = ''S'', mov_quantidade = 7\<rparr>],
      mov_id_seq = 3\<rparr>"

definition posting :: "string \<Rightarrow> string \<Rightarrow> int \<Rightarrow> MovimentacaoCreate" where
  "posting k t q = \<lparr>mc_sku_id = k, mc_tipo_movimentacao = t, mc_quantidade = q\<rparr>"

text \<open>The requests that lead from the empty database to that state, and two reads.\<close>

definition scenario_ops :: "(nat \<times> request) list" where
  "scenario_ops =
     [(1, Register produto_A1),
      (2, PostMovement (posting ''A1'' ''E'' 10)),
      (3, PostMovement (posting ''A1'' ''S'' 7)),
      (4, GetBalance ''A1''),
      (5, ListProducts)]"

text \<open>The same state with the maximum level of \<open>A1\<close> lowered to 1.\<close>

definition scenario_db_max1 :: db where
  "scenario_db_max1 =
     scenario_db\<lparr>tbl_produto :=
       [\<lparr>produto_sku_id = ''A1'', produto_nome = ''Parafuso'',
         nivel_minimo = 5, nivel_maximo = 1, custo_fabricacao = 2\<rparr>]\<rparr>"

text \<open>
  \<open>A1\<close> after a single entry of 2147483647, the largest value its balance column holds.
\<close>

definition full_db :: db where
  "full_db =
     \<lparr>tbl_produto = [\<lparr>produto_sku_id = ''A1'', produto_nome = ''Parafuso'',
                       nivel_minimo = 5, nivel_maximo = 100, custo_fabricacao = 2\<rparr>],
      tbl_saldo_estoque = [\<lparr>saldo_sku_id = ''A1'', saldo_atual = 2147483647,
                             ultima_atualizacao = 2\<rparr>],
      tbl_movimentacao_estoque =
        [\<lparr>mov_id = 1, mov_sku_id = ''A1'', data_movimentacao = 2,
          mov_tipo_movimentacao = ''E'', mov_quantidade = 2147483647\<rparr>],
      mov_id_seq = 2\<rparr>"


definition sku_nul :: string where
  "sku_nul = [CHR ''Z'', CHR 0x00]"


text \<open>A schedule in which the second session asks for the lock while the first holds it.\<close>

definition contended :: "turn list" where
  "contended = [First, Second, Second, First, Second, First, Second, Second]"

subsection \<open>Invariants used in the proofs\<close>

text \<open>
  The ledger invariant: the two keyed tables hold the same SKUs, a balance is the signed
  sum of its movements and not negative, and a SKU without a balance has no movements.
\<close>

definition ledger_inv :: "db \<Rightarrow> bool" where
  "ledger_inv d =
     (\<forall>k. (select_produto d k = None \<longleftrightarrow> select_saldo d k = None) \<and>
          (case select_saldo d k of
             None \<Rightarrow> movement_sum d k = 0
           | Some r \<Rightarrow> saldo_atual r = movement_sum d k \<and> 0 \<le> saldo_atual r))"

text \<open>
  A session that has not yet written (\<open>waiting\<close>), and one whose transaction is over
  (\<open>settled\<close>) with the outcome the endpoint has on the state \<open>d\<close>. Two sessions are
  either both waiting on the initial state, or one has settled on it and the other is
  waiting or settled on the state the first one left.
\<close>

definition waiting :: "session \<Rightarrow> nat \<Rightarrow> MovimentacaoCreate \<Rightarrow> db \<Rightarrow> bool" where
  "waiting s now mov d =
     (s = Start now mov \<or>
      (\<exists>row. fetch_saldo d (mc_sku_id mov) = Inr (Some row) \<and>
             s = Locked now mov (saldo_atual row) \<and>
             mc_tipo_movimentacao mov \<in> set [''E'', ''S'']))"

definition settled :: "session \<Rightarrow> nat \<Rightarrow> MovimentacaoCreate \<Rightarrow> db \<Rightarrow> bool" where
  "settled s now mov d =
     (s = Done (fst (lancar_movimentacao now mov d)) \<or>
      (\<exists>resp. fst (lancar_movimentacao now mov d) = Inr resp \<and>
              s = Committed now mov (novo_saldo resp)))"

definition one_then ::
  "db \<Rightarrow> nat \<Rightarrow> MovimentacaoCreate \<Rightarrow> nat \<Rightarrow> MovimentacaoCreate \<Rightarrow>
   db \<Rightarrow> session \<Rightarrow> session \<Rightarrow> bool" where
  "one_then d0 na ma nb mb d sa sb =
     (settled sa na ma d0 \<and>
      (d = snd (lancar_movimentacao na ma d0) \<and> waiting sb nb mb d \<or>
       d = snd (lancar_movimentacao nb mb (snd (lancar_movimentacao na ma d0))) \<and>
       settled sb nb mb (snd (lancar_movimentacao na ma d0))))"

definition both_waiting ::
  "db \<Rightarrow> nat \<Rightarrow> MovimentacaoCreate \<Rightarrow> nat \<Rightarrow> MovimentacaoCreate \<Rightarrow>
   db \<Rightarrow> session \<Rightarrow> session \<Rightarrow> bool" where
  "both_waiting d0 na ma nb mb d sa sb =
     (d = d0 \<and> waiting sa na ma d0 \<and> waiting sb nb mb d0 \<and> (holds sa = [] \<or> holds sb = []))"

definition serial_inv ::
  "db \<Rightarrow> nat \<Rightarrow> MovimentacaoCreate \<Rightarrow> nat \<Rightarrow> MovimentacaoCreate \<Rightarrow>
   db \<times> session \<times> session \<Rightarrow> bool" where
  "serial_inv d0 n1 m1 n2 m2 c =
     (case c of (d, s1, s2) \<Rightarrow>
        both_waiting d0 n1 m1 n2 m2 d s1 s2 \<or>
        one_then d0 n1 m1 n2 m2 d s1 s2 \<or>
        one_then d0 n2 m2 n1 m1 d s2 s1)"

section \<open>Properties\<close>

subsection \<open>Statements and tables\<close>

lemma rollback_same [simp]: "rollback d d = d"
  by (simp add: rollback_def)

lemma tbl_rollback [simp]:
  "tbl_produto (rollback d w) = tbl_produto d"
  "tbl_saldo_estoque (rollback d w) = tbl_saldo_estoque d"
  "tbl_movimentacao_estoque (rollback d w) = tbl_movimentacao_estoque d"
  by (simp_all add: rollback_def)

lemma find_append:
  "find P (xs @ ys) = (case find P xs of None \<Rightarrow> find P ys | Some x \<Rightarrow> Some x)"
  by (induction xs) auto

lemma find_map_upd:
  "find (\<lambda>r. saldo_sku_id r = k')
     (map (\<lambda>r. if saldo_sku_id r = k
               then r\<lparr>saldo_atual := v, ultima_atualizacao := t\<rparr> else r) xs) =
   (if k' = k
    then map_option (\<lambda>r. r\<lparr>saldo_atual := v, ultima_atualizacao := t\<rparr>)
           (find (\<lambda>r. saldo_sku_id r = k) xs)
    else find (\<lambda>r. saldo_sku_id r = k') xs)"
  by (induction xs) auto

lemma select_saldo_with_saldo:
  "select_saldo (with_saldo k v t d) k' =
     (if k' = k
      then map_option (\<lambda>r. r\<lparr>saldo_atual := v, ultima_atualizacao := t\<rparr>) (select_saldo d k)
      else select_saldo d k')"
  by (simp add: select_saldo_def with_saldo_def find_map_upd)

lemma select_saldo_with_movimentacao [simp]:
  "select_saldo (with_movimentacao t k tp q d) k' = select_saldo d k'"
  by (simp add: select_saldo_def with_movimentacao_def)

lemma select_produto_with_movimentacao [simp]:
  "select_produto (with_movimentacao t k tp q d) k' = select_produto d k'"
  by (simp add: select_produto_def with_movimentacao_def)

lemma select_produto_with_saldo [simp]:
  "select_produto (with_saldo k v t d) k' = select_produto d k'"
  by (simp add: select_produto_def with_saldo_def)

lemma select_rollback [simp]:
  "select_produto (rollback d w) k = select_produto d k"
  "select_saldo (rollback d w) k = select_saldo d k"
  by (simp_all add: select_produto_def select_saldo_def)

lemma movement_sum_with_saldo [simp]:
  "movement_sum (with_saldo k v t d) k' = movement_sum d k'"
  by (simp add: movement_sum_def with_saldo_def)

lemma movement_sum_rollback [simp]:
  "movement_sum (rollback d w) k = movement_sum d k"
  by (simp add: movement_sum_def)

lemma movement_sum_with_movimentacao:
  "movement_sum (with_movimentacao t k tp q d) k' =
     movement_sum d k' +
     (if k' = k then (if tp = ''E'' then q else if tp = ''S'' then - q else 0) else 0)"
  by (simp add: movement_sum_def with_movimentacao_def signed_quantity_def)

text \<open>What a posting does to the tables: nothing, or one movement and the new balance.\<close>

lemma lancar_effect:
  "(select_produto (snd (lancar_movimentacao now m d)) = select_produto d \<and>
    select_saldo (snd (lancar_movimentacao now m d)) = select_saldo d \<and>
    movement_sum (snd (lancar_movimentacao now m d)) = movement_sum d) \<or>
   (\<exists>row novo. select_saldo d (mc_sku_id m) = Some row \<and>
      mc_tipo_movimentacao m \<in> {''E'', ''S''} \<and>
      novo = (if mc_tipo_movimentacao m = ''E'' then saldo_atual row + mc_quantidade m
              else saldo_atual row - mc_quantidade m) \<and>
      (mc_tipo_movimentacao m = ''S'' \<longrightarrow> mc_quantidade m \<le> saldo_atual row) \<and>
      snd (lancar_movimentacao now m d) =
        with_saldo (mc_sku_id m) novo now
          (with_movimentacao now (mc_sku_id m) (mc_tipo_movimentacao m) (mc_quantidade m) d))"
  by (auto simp: lancar_movimentacao_def Let_def fetch_saldo_def fetch_produto_def
        insert_movimentacao_def update_saldo_def fun_eq_iff
        split: option.splits sum.splits if_splits)

lemma cadastrar_effect:
  "snd (cadastrar_produto now p d) = d \<or>
   (select_produto d (pc_sku_id p) = None \<and> select_saldo d (pc_sku_id p) = None \<and>
    snd (cadastrar_produto now p d) =
      d\<lparr>tbl_produto := tbl_produto d @
           [\<lparr>produto_sku_id = pc_sku_id p, produto_nome = pc_nome p,
             nivel_minimo = pc_nivel_minimo p, nivel_maximo = pc_nivel_maximo p,
             custo_fabricacao = pc_custo_fabricacao p\<rparr>],
        tbl_saldo_estoque := tbl_saldo_estoque d @
           [\<lparr>saldo_sku_id = pc_sku_id p, saldo_atual = 0, ultima_atualizacao = now\<rparr>]\<rparr>)"
  by (auto simp: cadastrar_produto_def fetch_produto_def insert_produto_def insert_saldo_def
        rollback_def select_saldo_def split: option.splits sum.splits if_splits)

subsection \<open>The balance and the movement log\<close>

lemma ledger_inv_empty: "ledger_inv empty_db"
  by (simp add: ledger_inv_def empty_db_def select_produto_def select_saldo_def movement_sum_def)

lemma ledger_inv_cadastrar:
  assumes "ledger_inv d"
  shows "ledger_inv (snd (cadastrar_produto now p d))"
  using cadastrar_effect[of now p d]
proof
  assume "snd (cadastrar_produto now p d) = d"
  with assms show ?thesis by simp
next
  let ?d' = "d\<lparr>tbl_produto := tbl_produto d @
           [\<lparr>produto_sku_id = pc_sku_id p, produto_nome = pc_nome p,
             nivel_minimo = pc_nivel_minimo p, nivel_maximo = pc_nivel_maximo p,
             custo_fabricacao = pc_custo_fabricacao p\<rparr>],
        tbl_saldo_estoque := tbl_saldo_estoque d @
           [\<lparr>saldo_sku_id = pc_sku_id p, saldo_atual = 0, ultima_atualizacao = now\<rparr>]\<rparr>"
  assume a: "select_produto d (pc_sku_id p) = None \<and> select_saldo d (pc_sku_id p) = None \<and>
    snd (cadastrar_produto now p d) = ?d'"
  from assms have "(select_produto d (pc_sku_id p) = None \<longleftrightarrow> select_saldo d (pc_sku_id p) = None) \<and>
          (case select_saldo d (pc_sku_id p) of
             None \<Rightarrow> movement_sum d (pc_sku_id p) = 0
           | Some r \<Rightarrow> saldo_atual r = movement_sum d (pc_sku_id p) \<and> 0 \<le> saldo_atual r)"
    unfolding ledger_inv_def by (rule spec)
  with a have m: "movement_sum d (pc_sku_id p) = 0" by simp
  have sp: "select_produto ?d' k = (case select_produto d k of None \<Rightarrow>
       (if k = pc_sku_id p then Some \<lparr>produto_sku_id = pc_sku_id p, produto_nome = pc_nome p,
                 nivel_minimo = pc_nivel_minimo p, nivel_maximo = pc_nivel_maximo p,
                 custo_fabricacao = pc_custo_fabricacao p\<rparr> else None) | Some x \<Rightarrow> Some x)" for k
    by (auto simp: select_produto_def find_append split: option.splits)
  have ss: "select_saldo ?d' k = (case select_saldo d k of None \<Rightarrow>
       (if k = pc_sku_id p then Some \<lparr>saldo_sku_id = pc_sku_id p, saldo_atual = 0,
                     ultima_atualizacao = now\<rparr> else None) | Some x \<Rightarrow> Some x)" for k
    by (auto simp: select_saldo_def find_append split: option.splits)
  have ms: "movement_sum ?d' k = movement_sum d k" for k
    by (simp add: movement_sum_def)
  have "ledger_inv ?d'"
    unfolding ledger_inv_def
  proof (intro allI)
    fix k
    from assms have ik: "(select_produto d k = None \<longleftrightarrow> select_saldo d k = None) \<and>
          (case select_saldo d k of
             None \<Rightarrow> movement_sum d k = 0
           | Some r \<Rightarrow> saldo_atual r = movement_sum d k \<and> 0 \<le> saldo_atual r)"
      by (simp add: ledger_inv_def)
    show "(select_produto ?d' k = None \<longleftrightarrow> select_saldo ?d' k = None) \<and>
          (case select_saldo ?d' k of
             None \<Rightarrow> movement_sum ?d' k = 0
           | Some r \<Rightarrow> saldo_atual r = movement_sum ?d' k \<and> 0 \<le> saldo_atual r)"
      using ik m by (auto simp: sp ss ms split: option.splits)
  qed
  with a show ?thesis by simp
qed

lemma ledger_inv_lancar:
  assumes "ledger_inv d" and "0 < mc_quantidade m"
  shows "ledger_inv (snd (lancar_movimentacao now m d))"
  using lancar_effect[of now m d]
proof
  assume "select_produto (snd (lancar_movimentacao now m d)) = select_produto d \<and>
    select_saldo (snd (lancar_movimentacao now m d)) = select_saldo d \<and>
    movement_sum (snd (lancar_movimentacao now m d)) = movement_sum d"
  then have e: "select_produto (snd (lancar_movimentacao now m d)) = select_produto d"
    "select_saldo (snd (lancar_movimentacao now m d)) = select_saldo d"
    "movement_sum (snd (lancar_movimentacao now m d)) = movement_sum d"
    by simp_all
  from assms(1) show ?thesis unfolding ledger_inv_def e .
next
  assume "\<exists>row novo. select_saldo d (mc_sku_id m) = Some row \<and>
      mc_tipo_movimentacao m \<in> {''E'', ''S''} \<and>
      novo = (if mc_tipo_movimentacao m = ''E'' then saldo_atual row + mc_quantidade m
              else saldo_atual row - mc_quantidade m) \<and>
      (mc_tipo_movimentacao m = ''S'' \<longrightarrow> mc_quantidade m \<le> saldo_atual row) \<and>
      snd (lancar_movimentacao now m d) =
        with_saldo (mc_sku_id m) novo now
          (with_movimentacao now (mc_sku_id m) (mc_tipo_movimentacao m) (mc_quantidade m) d)"
  then obtain row novo where row: "select_saldo d (mc_sku_id m) = Some row"
    and tp: "mc_tipo_movimentacao m \<in> {''E'', ''S''}"
    and novo: "novo = (if mc_tipo_movimentacao m = ''E'' then saldo_atual row + mc_quantidade m
              else saldo_atual row - mc_quantidade m)"
    and enough: "mc_tipo_movimentacao m = ''S'' \<longrightarrow> mc_quantidade m \<le> saldo_atual row"
    and eq: "snd (lancar_movimentacao now m d) =
        with_saldo (mc_sku_id m) novo now
          (with_movimentacao now (mc_sku_id m) (mc_tipo_movimentacao m) (mc_quantidade m) d)"
    by blast
  have ik: "(select_produto d k = None \<longleftrightarrow> select_saldo d k = None) \<and>
          (case select_saldo d k of
             None \<Rightarrow> movement_sum d k = 0
           | Some r \<Rightarrow> saldo_atual r = movement_sum d k \<and> 0 \<le> saldo_atual r)" for k
    using assms(1) by (simp add: ledger_inv_def)
  show ?thesis unfolding ledger_inv_def eq
  proof (intro allI)
    fix k
    let ?d' = "with_saldo (mc_sku_id m) novo now
          (with_movimentacao now (mc_sku_id m) (mc_tipo_movimentacao m) (mc_quantidade m) d)"
    show "(select_produto ?d' k = None \<longleftrightarrow> select_saldo ?d' k = None) \<and>
          (case select_saldo ?d' k of
             None \<Rightarrow> movement_sum ?d' k = 0
           | Some r \<Rightarrow> saldo_atual r = movement_sum ?d' k \<and> 0 \<le> saldo_atual r)"
      using ik[of k] ik[of "mc_sku_id m"] assms(2) row tp novo enough
      by (auto simp: select_saldo_with_saldo movement_sum_with_movimentacao
               split: option.splits if_splits)
  qed
qed

lemma ledger_inv_handle:
  "ledger_inv d \<Longrightarrow> well_formed c \<Longrightarrow> ledger_inv (handle now c d)"
  by (cases c)
     (auto simp: ledger_inv_cadastrar ledger_inv_lancar consultar_saldo_def listar_produtos_def
           split: option.splits sum.splits)

lemma ledger_inv_serve:
  "ledger_inv d \<Longrightarrow> \<forall>(now, c) \<in> set ops. well_formed c \<Longrightarrow> ledger_inv (serve ops d)"
  by (induction ops arbitrary: d) (auto simp: ledger_inv_handle)

text \<open>
  C1. Starting from the empty database, after any sequence of requests in which every
  posting has direction \<open>'E'\<close> or \<open>'S'\<close> and a positive quantity, every registered SKU
  has a balance row, its balance equals the signed sum of the movements of that SKU, and
  it is not negative.
\<close>

theorem balance_is_sum_of_movements:
  assumes "\<forall>(now, c) \<in> set ops. well_formed c"
      and "select_produto (serve ops empty_db) k \<noteq> None"
  shows "\<exists>r. select_saldo (serve ops empty_db) k = Some r \<and>
             saldo_atual r = movement_sum (serve ops empty_db) k \<and> 0 \<le> saldo_atual r"
proof -
  have "ledger_inv (serve ops empty_db)"
    using assms(1) by (rule ledger_inv_serve[OF ledger_inv_empty])
  then show ?thesis using assms(2)
    unfolding ledger_inv_def by (auto split: option.splits dest!: spec[of _ k])
qed

lemmas endpoint_defs =
  cadastrar_produto_def lancar_movimentacao_def consultar_saldo_def listar_produtos_def
  select_produto_def select_saldo_def fetch_produto_def fetch_saldo_def
  insert_produto_def insert_saldo_def insert_movimentacao_def update_saldo_def
  with_movimentacao_def with_saldo_def rollback_def int4_def nul_free_def

lemma serve_scenario: "serve scenario_ops empty_db = scenario_db"
  by (simp add: scenario_ops_def empty_db_def scenario_db_def produto_A1_def posting_def
        endpoint_defs Let_def)

lemma select_saldo_scenario:
  "select_saldo scenario_db ''A1'' =
     Some \<lparr>saldo_sku_id = ''A1'', saldo_atual = 3, ultima_atualizacao = 3\<rparr>"
  by (simp add: scenario_db_def select_saldo_def)

lemma fetch_saldo_scenario:
  "fetch_saldo scenario_db ''A1'' =
     Inr (Some \<lparr>saldo_sku_id = ''A1'', saldo_atual = 3, ultima_atualizacao = 3\<rparr>)"
  by (simp add: fetch_saldo_def nul_free_def select_saldo_scenario)

lemma select_produto_scenario:
  "select_produto scenario_db ''A1'' =
     Some \<lparr>produto_sku_id = ''A1'', produto_nome = ''Parafuso'',
           nivel_minimo = 5, nivel_maximo = 100, custo_fabricacao = 2\<rparr>"
  by (simp add: scenario_db_def select_produto_def)

lemma fetch_produto_scenario:
  "fetch_produto scenario_db ''A1'' =
     Inr (Some \<lparr>produto_sku_id = ''A1'', produto_nome = ''Parafuso'',
                nivel_minimo = 5, nivel_maximo = 100, custo_fabricacao = 2\<rparr>)"
  by (simp add: fetch_produto_def nul_free_def select_produto_scenario)

text \<open>The requests of the worked state: \<open>A1\<close> ends with balance 3, the sum of 10 and -7.\<close>

theorem balance_is_sum_of_movements_witness:
  "list_all (\<lambda>(now, c). well_formed c) scenario_ops \<and>
   select_produto (serve scenario_ops empty_db) ''A1'' \<noteq> None \<and>
   (\<exists>r. select_saldo (serve scenario_ops empty_db) ''A1'' = Some r \<and>
        saldo_atual r = movement_sum (serve scenario_ops empty_db) ''A1'' \<and>
        0 \<le> saldo_atual r) \<and>
   movement_sum (serve scenario_ops empty_db) ''A1'' = 3"
proof -
  have wf: "\<forall>(now, c) \<in> set scenario_ops. well_formed c"
    by (simp add: scenario_ops_def posting_def)
  have reg: "select_produto (serve scenario_ops empty_db) ''A1'' \<noteq> None"
    by (simp add: serve_scenario select_produto_scenario)
  have total: "movement_sum (serve scenario_ops empty_db) ''A1'' = 3"
    by (simp add: serve_scenario scenario_db_def movement_sum_def signed_quantity_def)
  from wf have "list_all (\<lambda>(now, c). well_formed c) scenario_ops"
    by (simp add: list_all_iff)
  with reg total balance_is_sum_of_movements[OF wf reg] show ?thesis by blast
qed

subsection \<open>Two concurrent postings are serializable\<close>

lemma tbl_produto_lancar [simp]:
  "tbl_produto (snd (lancar_movimentacao now mov d)) = tbl_produto d"
  by (simp add: lancar_movimentacao_def Let_def insert_movimentacao_def update_saldo_def
        with_movimentacao_def with_saldo_def
        split: option.splits sum.splits)

lemma fetch_produto_cong:
  "tbl_produto d = tbl_produto d' \<Longrightarrow> fetch_produto d k = fetch_produto d' k"
  by (simp add: fetch_produto_def select_produto_def)

lemma lancar_success:
  assumes "fst (lancar_movimentacao now mov d) = Inr resp"
  shows "(if mc_tipo_movimentacao mov = ''S''
          then (case fetch_produto d (mc_sku_id mov) of
                  Inl e \<Rightarrow> Inl e
                | Inr None \<Rightarrow> Inr False
                | Inr (Some produto_row) \<Rightarrow> Inr (novo_saldo resp < nivel_minimo produto_row))
          else Inr False) = Inr (alerta_estoque_minimo resp) \<and>
         \<lparr>resp_tipo = mc_tipo_movimentacao mov, resp_sku = mc_sku_id mov,
          novo_saldo = novo_saldo resp,
          alerta_estoque_minimo = alerta_estoque_minimo resp\<rparr> = resp"
  using assms
  by (auto simp: lancar_movimentacao_def Let_def fetch_saldo_def fetch_produto_def
        insert_movimentacao_def update_saldo_def
        split: option.splits sum.splits if_splits)

lemma settled_holds: "settled s now mov d \<Longrightarrow> holds s = []"
  by (auto simp: settled_def)

lemma waiting_holds: "waiting s now mov d \<Longrightarrow> set (holds s) \<subseteq> {mc_sku_id mov}"
  by (auto simp: waiting_def)

lemma settled_step:
  assumes "settled s now mov d0" and "tbl_produto d = tbl_produto d0"
      and "session_step others s d = Some (s', d')"
  shows "settled s' now mov d0 \<and> d' = d"
proof -
  from assms(1) consider "s = Done (fst (lancar_movimentacao now mov d0))"
    | resp where "fst (lancar_movimentacao now mov d0) = Inr resp"
        "s = Committed now mov (novo_saldo resp)"
    by (auto simp: settled_def)
  then show ?thesis
  proof cases
    case 1
    with assms(3) show ?thesis by simp
  next
    case 2
    have sp: "fetch_produto d (mc_sku_id mov) = fetch_produto d0 (mc_sku_id mov)"
      using assms(2) by (rule fetch_produto_cong)
    from lancar_success[OF 2(1)]
    have a: "(if mc_tipo_movimentacao mov = ''S''
          then (case fetch_produto d0 (mc_sku_id mov) of
                  Inl e \<Rightarrow> Inl e
                | Inr None \<Rightarrow> Inr False
                | Inr (Some produto_row) \<Rightarrow> Inr (novo_saldo resp < nivel_minimo produto_row))
          else Inr False) = Inr (alerta_estoque_minimo resp)"
      and r: "\<lparr>resp_tipo = mc_tipo_movimentacao mov, resp_sku = mc_sku_id mov,
          novo_saldo = novo_saldo resp,
          alerta_estoque_minimo = alerta_estoque_minimo resp\<rparr> = resp"
      by blast+
    have "session_step others (Committed now mov (novo_saldo resp)) d =
            Some (Done (Inr resp), d)"
      by (simp only: session_step.simps sp a sum.case r)
    with assms(3) 2 show ?thesis by (simp add: settled_def)
  qed
qed

lemma lancar_invalid:
  "mc_tipo_movimentacao mov \<notin> set [''E'', ''S''] \<Longrightarrow>
   lancar_movimentacao now mov d = (Inl (HTTPException 400 Tipo_de_movimentacao_invalido), d)"
  by (simp add: lancar_movimentacao_def)

lemma lancar_refused:
  "mc_tipo_movimentacao mov \<in> set [''E'', ''S''] \<Longrightarrow> fetch_saldo d (mc_sku_id mov) = Inl e \<Longrightarrow>
   lancar_movimentacao now mov d = (Inl (HTTPException 500 (Erro_no_banco_de_dados e)), d)"
  by (simp add: lancar_movimentacao_def)

lemma lancar_not_found:
  "mc_tipo_movimentacao mov \<in> set [''E'', ''S''] \<Longrightarrow> fetch_saldo d (mc_sku_id mov) = Inr None \<Longrightarrow>
   lancar_movimentacao now mov d = (Inl (HTTPException 404 SKU_nao_encontrado_no_saldo), d)"
  by (simp add: lancar_movimentacao_def)

lemma fetch_produto_accepted:
  "fetch_saldo d k = Inr r \<Longrightarrow> fetch_produto d' k = Inr (select_produto d' k)"
  by (simp add: fetch_saldo_def fetch_produto_def split: if_splits)

lemma locked_step:
  assumes tp: "mc_tipo_movimentacao mov \<in> set [''E'', ''S'']"
      and row: "fetch_saldo d (mc_sku_id mov) = Inr (Some row)"
      and st: "session_step others (Locked now mov (saldo_atual row)) d = Some (s', d')"
  shows "settled s' now mov d \<and> d' = snd (lancar_movimentacao now mov d)"
proof -
  let ?c = "if mc_tipo_movimentacao mov = ''E''
            then Inr (saldo_atual row + mc_quantidade mov)
            else if mc_tipo_movimentacao mov = ''S''
            then (if mc_quantidade mov > saldo_atual row
                  then Inl (HTTPException 400 (Estoque_insuficiente_Saldo_atual (saldo_atual row)))
                  else Inr (saldo_atual row - mc_quantidade mov))
            else Inr 0"
  have fp: "fetch_produto d2 (mc_sku_id mov) = Inr (select_produto d2 (mc_sku_id mov))" for d2
    using row by (rule fetch_produto_accepted)
  show ?thesis
  proof (cases ?c)
    case (Inl e)
    with tp row st show ?thesis
      by (simp add: lancar_movimentacao_def settled_def)
  next
    case novo: (Inr novo)
    show ?thesis
    proof (cases "insert_movimentacao now (mc_sku_id mov)
                    (mc_tipo_movimentacao mov) (mc_quantidade mov) d")
      case (Inl e)
      with novo tp row st show ?thesis
        by (simp add: lancar_movimentacao_def settled_def)
    next
      case d1: (Inr d1)
      show ?thesis
      proof (cases "update_saldo (mc_sku_id mov) novo now d1")
        case (Inl e)
        with d1 novo tp row st show ?thesis
          by (simp add: lancar_movimentacao_def settled_def)
      next
        case d2: (Inr d2)
        from d2 d1 novo st have s': "s' = Committed now mov novo" and d': "d' = d2"
          by simp_all
        from d2 d1 novo tp row fp[of d2]
        have "\<exists>a. lancar_movimentacao now mov d =
                (Inr \<lparr>resp_tipo = mc_tipo_movimentacao mov, resp_sku = mc_sku_id mov,
                      novo_saldo = novo, alerta_estoque_minimo = a\<rparr>, d2)"
          by (auto simp: lancar_movimentacao_def split: option.splits)
        with s' d' show ?thesis by (auto simp: settled_def)
      qed
    qed
  qed
qed

lemma waiting_step:
  assumes "waiting s now mov d" and "session_step others s d = Some (s', d')"
  shows "(waiting s' now mov d \<and> d' = d \<and> mc_sku_id mov \<notin> set others) \<or>
         (settled s' now mov d \<and> d' = snd (lancar_movimentacao now mov d) \<and>
          (holds s = [] \<longrightarrow> d' = d))"
proof -
  from assms(1) consider (start) "s = Start now mov"
    | (locked) row where "fetch_saldo d (mc_sku_id mov) = Inr (Some row)"
        "s = Locked now mov (saldo_atual row)" "mc_tipo_movimentacao mov \<in> set [''E'', ''S'']"
    by (auto simp: waiting_def)
  then show ?thesis
  proof cases
    case start
    show ?thesis
    proof (cases "mc_tipo_movimentacao mov \<in> set [''E'', ''S'']")
      case False
      with start assms(2) lancar_invalid[OF False, of now d] show ?thesis
        by (simp add: settled_def)
    next
      case True
      show ?thesis
      proof (cases "fetch_saldo d (mc_sku_id mov)")
        case (Inl e)
        then have nf: "\<not> nul_free (mc_sku_id mov)"
          by (simp add: fetch_saldo_def split: if_splits)
        from nf start assms(2) True Inl lancar_refused[OF True Inl, of now] show ?thesis
          by (auto simp: settled_def split: if_splits)
      next
        case (Inr r)
        then have nf: "nul_free (mc_sku_id mov)"
          by (simp add: fetch_saldo_def split: if_splits)
        show ?thesis
        proof (cases r)
          case None
          with start assms(2) True Inr nf lancar_not_found[OF True, of d now] show ?thesis
            by (auto simp: settled_def split: if_splits)
        next
          case (Some row)
          with start assms(2) True Inr nf show ?thesis
            by (auto simp: waiting_def split: if_splits)
        qed
      qed
    qed
  next
    case locked
    from locked_step[OF locked(3) locked(1)] assms(2) locked(2) show ?thesis
      by simp
  qed
qed

lemma waiting_no_lock: "waiting s now mov d \<Longrightarrow> holds s = [] \<Longrightarrow> waiting s now mov d'"
  by (auto simp: waiting_def)

lemma both_waiting_sym:
  "both_waiting d0 na ma nb mb d sa sb = both_waiting d0 nb mb na ma d sb sa"
  by (auto simp: both_waiting_def)

lemma both_waiting_step:
  assumes bw: "both_waiting d0 na ma nb mb d sa sb"
      and same: "mc_sku_id ma = mc_sku_id mb"
      and st: "session_step (holds sb) sa d = Some (sa', d')"
  shows "both_waiting d0 na ma nb mb d' sa' sb \<or> one_then d0 na ma nb mb d' sa' sb"
proof -
  from bw have d: "d = d0" and wa: "waiting sa na ma d" and wb: "waiting sb nb mb d"
    and ex: "holds sa = [] \<or> holds sb = []"
    by (auto simp: both_waiting_def)
  from waiting_step[OF wa st]
  show ?thesis
  proof
    assume a: "waiting sa' na ma d \<and> d' = d \<and> mc_sku_id ma \<notin> set (holds sb)"
    with waiting_holds[OF wb] same have "holds sb = []"
      by (cases "holds sb") auto
    with a wb d show ?thesis by (simp add: both_waiting_def)
  next
    assume a: "settled sa' na ma d \<and> d' = snd (lancar_movimentacao na ma d) \<and>
          (holds sa = [] \<longrightarrow> d' = d)"
    have "waiting sb nb mb d'"
    proof (cases "holds sb = []")
      case True
      with wb show ?thesis by (rule waiting_no_lock)
    next
      case False
      with ex a have "d' = d" by blast
      with wb show ?thesis by simp
    qed
    with a d show ?thesis by (simp add: one_then_def)
  qed
qed

lemma one_then_step_first:
  assumes ot: "one_then d0 na ma nb mb d sa sb"
      and st: "session_step others sa d = Some (sa', d')"
  shows "one_then d0 na ma nb mb d' sa' sb"
proof -
  from ot have sa: "settled sa na ma d0" and p: "tbl_produto d = tbl_produto d0"
    by (auto simp: one_then_def)
  from settled_step[OF sa p st] ot show ?thesis
    by (simp add: one_then_def)
qed

lemma one_then_step_second:
  assumes ot: "one_then d0 na ma nb mb d sa sb"
      and st: "session_step (holds sa) sb d = Some (sb', d')"
  shows "one_then d0 na ma nb mb d' sa sb'"
proof -
  from ot have sa: "settled sa na ma d0" by (simp add: one_then_def)
  from ot consider
      "d = snd (lancar_movimentacao na ma d0)" "waiting sb nb mb d"
    | "d = snd (lancar_movimentacao nb mb (snd (lancar_movimentacao na ma d0)))"
      "settled sb nb mb (snd (lancar_movimentacao na ma d0))"
    by (auto simp: one_then_def)
  then show ?thesis
  proof cases
    case 1
    from waiting_step[OF 1(2) st] 1(1) sa show ?thesis
      by (auto simp: one_then_def)
  next
    case 2
    have p: "tbl_produto d = tbl_produto (snd (lancar_movimentacao na ma d0))"
      using 2(1) by simp
    from settled_step[OF 2(2) p st] 2(1) sa show ?thesis
      by (simp add: one_then_def)
  qed
qed

lemma serial_inv_step:
  assumes inv: "serial_inv d0 n1 m1 n2 m2 c" and same: "mc_sku_id m1 = mc_sku_id m2"
  shows "serial_inv d0 n1 m1 n2 m2 (sched_step t c)"
proof -
  obtain d s1 s2 where c: "c = (d, s1, s2)" by (cases c) auto
  from inv c consider
      (bw) "both_waiting d0 n1 m1 n2 m2 d s1 s2"
    | (ot1) "one_then d0 n1 m1 n2 m2 d s1 s2"
    | (ot2) "one_then d0 n2 m2 n1 m1 d s2 s1"
    by (auto simp: serial_inv_def)
  then show ?thesis
  proof cases
    case bw
    show ?thesis
    proof (cases t)
      case First
      show ?thesis
      proof (cases "session_step (holds s2) s1 d")
        case None
        with inv c First show ?thesis by simp
      next
        case (Some r)
        obtain s1' d' where r: "r = (s1', d')" by (cases r) auto
        from both_waiting_step[OF bw same Some[unfolded r]]
        show ?thesis using c First Some r by (auto simp: serial_inv_def)
      qed
    next
      case Second
      show ?thesis
      proof (cases "session_step (holds s1) s2 d")
        case None
        with inv c Second show ?thesis by simp
      next
        case (Some r)
        obtain s2' d' where r: "r = (s2', d')" by (cases r) auto
        from bw have bw': "both_waiting d0 n2 m2 n1 m1 d s2 s1"
          by (simp add: both_waiting_sym)
        from both_waiting_step[OF bw' same[symmetric] Some[unfolded r]]
        show ?thesis using c Second Some r
          by (auto simp: serial_inv_def both_waiting_sym)
      qed
    qed
  next
    case ot1
    then have h: "holds s1 = []" by (auto simp: one_then_def dest: settled_holds)
    show ?thesis
    proof (cases t)
      case First
      show ?thesis
      proof (cases "session_step (holds s2) s1 d")
        case None
        with inv c First show ?thesis by simp
      next
        case (Some r)
        obtain s1' d' where r: "r = (s1', d')" by (cases r) auto
        from one_then_step_first[OF ot1 Some[unfolded r]]
        show ?thesis using c First Some r by (auto simp: serial_inv_def)
      qed
    next
      case Second
      show ?thesis
      proof (cases "session_step (holds s1) s2 d")
        case None
        with inv c Second show ?thesis by simp
      next
        case (Some r)
        obtain s2' d' where r: "r = (s2', d')" by (cases r) auto
        from one_then_step_second[OF ot1 Some[unfolded r]]
        show ?thesis using c Second Some r by (auto simp: serial_inv_def)
      qed
    qed
  next
    case ot2
    show ?thesis
    proof (cases t)
      case First
      show ?thesis
      proof (cases "session_step (holds s2) s1 d")
        case None
        with inv c First show ?thesis by simp
      next
        case (Some r)
        obtain s1' d' where r: "r = (s1', d')" by (cases r) auto
        from one_then_step_second[OF ot2 Some[unfolded r]]
        show ?thesis using c First Some r by (auto simp: serial_inv_def)
      qed
    next
      case Second
      show ?thesis
      proof (cases "session_step (holds s1) s2 d")
        case None
        with inv c Second show ?thesis by simp
      next
        case (Some r)
        obtain s2' d' where r: "r = (s2', d')" by (cases r) auto
        from one_then_step_first[OF ot2 Some[unfolded r]]
        show ?thesis using c Second Some r by (auto simp: serial_inv_def)
      qed
    qed
  qed
qed

lemma serial_inv_run:
  "serial_inv d0 n1 m1 n2 m2 c \<Longrightarrow> mc_sku_id m1 = mc_sku_id m2 \<Longrightarrow>
   serial_inv d0 n1 m1 n2 m2 (run_schedule ts c)"
  by (induction ts arbitrary: c) (auto simp: serial_inv_step)

lemma serial_inv_init: "serial_inv d0 n1 m1 n2 m2 (d0, Start n1 m1, Start n2 m2)"
  by (simp add: serial_inv_def both_waiting_def waiting_def)

lemma serializable:
  assumes same: "mc_sku_id m1 = mc_sku_id m2"
      and run: "run_schedule ts (d0, Start n1 m1, Start n2 m2) = (d, Done r1, Done r2)"
  shows "(r1 = fst (lancar_movimentacao n1 m1 d0) \<and>
          r2 = fst (lancar_movimentacao n2 m2 (snd (lancar_movimentacao n1 m1 d0))) \<and>
          d = snd (lancar_movimentacao n2 m2 (snd (lancar_movimentacao n1 m1 d0)))) \<or>
         (r2 = fst (lancar_movimentacao n2 m2 d0) \<and>
          r1 = fst (lancar_movimentacao n1 m1 (snd (lancar_movimentacao n2 m2 d0))) \<and>
          d = snd (lancar_movimentacao n1 m1 (snd (lancar_movimentacao n2 m2 d0))))"
proof -
  have "serial_inv d0 n1 m1 n2 m2 (d, Done r1, Done r2)"
    using serial_inv_run[OF serial_inv_init same, of d0 n1 n2 ts] run by simp
  then show ?thesis
    by (auto simp: serial_inv_def both_waiting_def one_then_def waiting_def settled_def)
qed

subsection \<open>Every schedule lets both sessions return\<close>

lemma session_step_rank:
  "session_step others s d = Some (s', d') \<Longrightarrow> rank s' < rank s"
  by (cases s) (auto split: if_splits sum.splits option.splits)

lemma session_step_blocked:
  "session_step others s d = None \<Longrightarrow> returned s \<or> (rank s = 3 \<and> others \<noteq> [])"
  by (cases s) (auto split: if_splits sum.splits option.splits)

lemma rank_returned: "rank s = 0 \<longleftrightarrow> returned s"
  by (cases s) auto

lemma free_holds: "returned s \<or> rank s = 3 \<Longrightarrow> holds s = []"
  by (cases s) auto

lemma turn_first:
  "(sched_step First (d, s1, s2) = (d, s1, s2) \<and>
      (returned s1 \<or> (rank s1 = 3 \<and> holds s2 \<noteq> []))) \<or>
   (\<exists>d' s1'. sched_step First (d, s1, s2) = (d', s1', s2) \<and> rank s1' < rank s1)"
proof (cases "session_step (holds s2) s1 d")
  case None
  with session_step_blocked[OF None] show ?thesis by simp
next
  case (Some r)
  obtain s1' d' where r: "r = (s1', d')" by (cases r) auto
  from session_step_rank[OF Some[unfolded r]] Some r show ?thesis by simp
qed

lemma turn_second:
  "(sched_step Second (d, s1, s2) = (d, s1, s2) \<and>
      (returned s2 \<or> (rank s2 = 3 \<and> holds s1 \<noteq> []))) \<or>
   (\<exists>d' s2'. sched_step Second (d, s1, s2) = (d', s1, s2') \<and> rank s2' < rank s2)"
proof (cases "session_step (holds s1) s2 d")
  case None
  with session_step_blocked[OF None] show ?thesis by simp
next
  case (Some r)
  obtain s2' d' where r: "r = (s2', d')" by (cases r) auto
  from session_step_rank[OF Some[unfolded r]] Some r show ?thesis by simp
qed

lemma rank_le_3: "rank s \<le> 3"
  by (cases s) auto

lemma three_first:
  "\<exists>d' s1'. run_schedule [First, First, First] (d, s1, s2) = (d', s1', s2) \<and>
     (returned s1' \<or> (d' = d \<and> s1' = s1 \<and> rank s1 = 3 \<and> holds s2 \<noteq> []))"
proof -
  have step: "\<exists>d' s1'. sched_step First (d, s1, s2) = (d', s1', s2) \<and>
      (returned s1' \<or> rank s1' < n \<or> (d' = d \<and> s1' = s1 \<and> rank s1 = 3 \<and> holds s2 \<noteq> []))"
    if "rank s1 \<le> n" for d s1 n
    using turn_first[of d s1 s2] that by (auto simp: rank_returned[symmetric])
  from step[of s1 3 d] rank_le_3[of s1] obtain d1 a1 where
    t1: "sched_step First (d, s1, s2) = (d1, a1, s2)"
    and c1: "returned a1 \<or> rank a1 < 3 \<or> (d1 = d \<and> a1 = s1 \<and> rank s1 = 3 \<and> holds s2 \<noteq> [])"
    by blast
  show ?thesis
  proof (cases "d1 = d \<and> a1 = s1 \<and> rank s1 = 3 \<and> holds s2 \<noteq> []")
    case True
    with t1 show ?thesis by simp
  next
    case False
    with c1 have r1: "rank a1 \<le> 2" by (auto simp: rank_returned[symmetric])
    from step[OF r1, of d1] obtain d2 a2 where
      t2: "sched_step First (d1, a1, s2) = (d2, a2, s2)"
      and c2: "returned a2 \<or> rank a2 < 2 \<or> (d2 = d1 \<and> a2 = a1 \<and> rank a1 = 3 \<and> holds s2 \<noteq> [])"
      by blast
    from c2 r1 have r2: "rank a2 \<le> 1" by (auto simp: rank_returned[symmetric])
    from step[OF r2, of d2] obtain d3 a3 where
      t3: "sched_step First (d2, a2, s2) = (d3, a3, s2)"
      and c3: "returned a3 \<or> rank a3 < 1 \<or> (d3 = d2 \<and> a3 = a2 \<and> rank a2 = 3 \<and> holds s2 \<noteq> [])"
      by blast
    from c3 r2 have "returned a3" by (auto simp: rank_returned[symmetric])
    with t1 t2 t3 show ?thesis by simp
  qed
qed

lemma three_second:
  "\<exists>d' s2'. run_schedule [Second, Second, Second] (d, s1, s2) = (d', s1, s2') \<and>
     (returned s2' \<or> (d' = d \<and> s2' = s2 \<and> rank s2 = 3 \<and> holds s1 \<noteq> []))"
proof -
  have step: "\<exists>d' s2'. sched_step Second (d, s1, s2) = (d', s1, s2') \<and>
      (returned s2' \<or> rank s2' < n \<or> (d' = d \<and> s2' = s2 \<and> rank s2 = 3 \<and> holds s1 \<noteq> []))"
    if "rank s2 \<le> n" for d s2 n
    using turn_second[of d s1 s2] that by (auto simp: rank_returned[symmetric])
  from step[of s2 3 d] rank_le_3[of s2] obtain d1 a1 where
    t1: "sched_step Second (d, s1, s2) = (d1, s1, a1)"
    and c1: "returned a1 \<or> rank a1 < 3 \<or> (d1 = d \<and> a1 = s2 \<and> rank s2 = 3 \<and> holds s1 \<noteq> [])"
    by blast
  show ?thesis
  proof (cases "d1 = d \<and> a1 = s2 \<and> rank s2 = 3 \<and> holds s1 \<noteq> []")
    case True
    with t1 show ?thesis by simp
  next
    case False
    with c1 have r1: "rank a1 \<le> 2" by (auto simp: rank_returned[symmetric])
    from step[OF r1, of d1] obtain d2 a2 where
      t2: "sched_step Second (d1, s1, a1) = (d2, s1, a2)"
      and c2: "returned a2 \<or> rank a2 < 2 \<or> (d2 = d1 \<and> a2 = a1 \<and> rank a1 = 3 \<and> holds s1 \<noteq> [])"
      by blast
    from c2 r1 have r2: "rank a2 \<le> 1" by (auto simp: rank_returned[symmetric])
    from step[OF r2, of d2] obtain d3 a3 where
      t3: "sched_step Second (d2, s1, a2) = (d3, s1, a3)"
      and c3: "returned a3 \<or> rank a3 < 1 \<or> (d3 = d2 \<and> a3 = a2 \<and> rank a2 = 3 \<and> holds s1 \<noteq> [])"
      by blast
    from c3 r2 have "returned a3" by (auto simp: rank_returned[symmetric])
    with t1 t2 t3 show ?thesis by simp
  qed
qed

lemma run_schedule_append:
  "run_schedule (ts @ us) c = run_schedule us (run_schedule ts c)"
  by (induction ts arbitrary: c) auto

lemma finish_returns:
  "\<exists>d' r1 r2. run_schedule finish c = (d', Done r1, Done r2)"
proof -
  obtain d s1 s2 where c: "c = (d, s1, s2)" by (cases c) auto
  from three_first[of d s1 s2] obtain d1 a where
    f1: "run_schedule [First, First, First] (d, s1, s2) = (d1, a, s2)"
    and a: "returned a \<or> rank a = 3" by auto
  from a have ha: "holds a = []" by (rule free_holds)
  from three_second[of d1 a s2] ha obtain d2 b where
    f2: "run_schedule [Second, Second, Second] (d1, a, s2) = (d2, a, b)"
    and b: "returned b" by auto
  from b have hb: "holds b = []" by (simp add: free_holds)
  from three_first[of d2 a b] hb obtain d3 a' where
    f3: "run_schedule [First, First, First] (d2, a, b) = (d3, a', b)"
    and a': "returned a'" by auto
  from a' obtain r1 where r1: "a' = Done r1" by (cases a') auto
  from b obtain r2 where r2: "b = Done r2" by (cases b) auto
  from c f1 f2 f3 r1 r2 show ?thesis
    by (simp only: finish_def run_schedule_append) blast
qed

text \<open>A session that runs alone computes the endpoint.\<close>

lemma alone_step:
  assumes inv: "(waiting s n m d \<and> dc = d) \<or>
                (settled s n m d \<and> dc = snd (lancar_movimentacao n m d))"
  shows "\<exists>dc' s'. sched_step First (dc, s, s2) = (dc', s', s2) \<and>
           ((waiting s' n m d \<and> dc' = d) \<or>
            (settled s' n m d \<and> dc' = snd (lancar_movimentacao n m d)))"
proof (cases "session_step (holds s2) s dc")
  case None
  with inv show ?thesis by simp
next
  case (Some r)
  obtain s' dc' where r: "r = (s', dc')" by (cases r) auto
  from inv show ?thesis
  proof
    assume w: "waiting s n m d \<and> dc = d"
    with Some r have "session_step (holds s2) s d = Some (s', dc')" by simp
    from waiting_step[OF conjunct1[OF w] this] w Some r show ?thesis by auto
  next
    assume st: "settled s n m d \<and> dc = snd (lancar_movimentacao n m d)"
    then have p: "tbl_produto dc = tbl_produto d" by simp
    from settled_step[OF conjunct1[OF st] p Some[unfolded r]] st Some r show ?thesis by auto
  qed
qed

lemma session_alone:
  assumes "holds s2 = []"
  shows "run_schedule [First, First, First] (d, Start n m, s2) =
           (snd (lancar_movimentacao n m d), Done (fst (lancar_movimentacao n m d)), s2)"
proof -
  let ?inv = "\<lambda>dc s. (waiting s n m d \<and> dc = d) \<or>
                      (settled s n m d \<and> dc = snd (lancar_movimentacao n m d))"
  have i0: "?inv d (Start n m)" by (simp add: waiting_def)
  from alone_step[OF i0, of s2] obtain d1 a1 where
    t1: "sched_step First (d, Start n m, s2) = (d1, a1, s2)" and i1: "?inv d1 a1" by blast
  from alone_step[OF i1, of s2] obtain d2 a2 where
    t2: "sched_step First (d1, a1, s2) = (d2, a2, s2)" and i2: "?inv d2 a2" by blast
  from alone_step[OF i2, of s2] obtain d3 a3 where
    t3: "sched_step First (d2, a2, s2) = (d3, a3, s2)" and i3: "?inv d3 a3" by blast
  from t1 t2 t3 have run: "run_schedule [First, First, First] (d, Start n m, s2) = (d3, a3, s2)"
    by simp
  from three_first[of d "Start n m" s2] assms run have "returned a3" by auto
  with i3 have "a3 = Done (fst (lancar_movimentacao n m d)) \<and>
                d3 = snd (lancar_movimentacao n m d)"
    by (auto simp: waiting_def settled_def)
  with run show ?thesis by simp
qed

subsection \<open>Postings\<close>

lemma withdraw_rejected:
  assumes "fetch_saldo d (mc_sku_id mov) = Inr (Some r)"
      and "mc_tipo_movimentacao mov = ''S''"
      and "mc_quantidade mov > saldo_atual r"
  shows "lancar_movimentacao now mov d =
           (Inl (HTTPException 400 (Estoque_insuficiente_Saldo_atual (saldo_atual r))), d)"
  using assms by (simp add: lancar_movimentacao_def)

text \<open>
  C3. A withdrawal (\<open>'S'\<close>) on a registered SKU, one whose balance query returns a row,
  with a quantity above the balance fails with status 400 and the insufficient-stock
  detail carrying the current balance, and the database is the one before the call: no
  movement is appended and the balance row keeps its quantity and its timestamp.
\<close>

theorem insufficient_stock_rejected:
  assumes "fetch_saldo d (mc_sku_id mov) = Inr (Some r)"
      and "mc_tipo_movimentacao mov = ''S''"
      and "mc_quantidade mov > saldo_atual r"
  shows "lancar_movimentacao now mov d =
           (Inl (HTTPException 400 (Estoque_insuficiente_Saldo_atual (saldo_atual r))), d)"
  using assms by (rule withdraw_rejected)

text \<open>Withdrawing 50 of \<open>A1\<close> at balance 3.\<close>

theorem insufficient_stock_rejected_witness:
  "fetch_saldo scenario_db (mc_sku_id (posting ''A1'' ''S'' 50)) =
     Inr (Some \<lparr>saldo_sku_id = ''A1'', saldo_atual = 3, ultima_atualizacao = 3\<rparr>) \<and>
   mc_tipo_movimentacao (posting ''A1'' ''S'' 50) = ''S'' \<and>
   mc_quantidade (posting ''A1'' ''S'' 50) > 3 \<and>
   lancar_movimentacao 9 (posting ''A1'' ''S'' 50) scenario_db =
     (Inl (HTTPException 400 (Estoque_insuficiente_Saldo_atual 3)), scenario_db)"
  using insufficient_stock_rejected[of scenario_db "posting ''A1'' ''S'' 50"
           "\<lparr>saldo_sku_id = ''A1'', saldo_atual = 3, ultima_atualizacao = 3\<rparr>" 9]
  by (simp add: fetch_saldo_scenario posting_def)

text \<open>
  C4 says that a posting whose quantity is not a positive integer is refused before any
  transaction starts and changes nothing. The code at a failing input: an entry of
  \<open>-5\<close> of \<open>A1\<close> at balance 3 is not refused; the call succeeds, appends the movement
  and stores the balance \<open>-2\<close>.
\<close>

theorem nonpositive_quantity_accepted:
  "\<not> 0 < mc_quantidade (posting ''A1'' ''E'' (- 5)) \<and>
   lancar_movimentacao 9 (posting ''A1'' ''E'' (- 5)) scenario_db =
     (Inr \<lparr>resp_tipo = ''E'', resp_sku = ''A1'', novo_saldo = - 2,
           alerta_estoque_minimo = False\<rparr>,
      scenario_db\<lparr>tbl_saldo_estoque :=
                    [\<lparr>saldo_sku_id = ''A1'', saldo_atual = - 2, ultima_atualizacao = 9\<rparr>],
                  tbl_movimentacao_estoque := tbl_movimentacao_estoque scenario_db @
                    [\<lparr>mov_id = 3, mov_sku_id = ''A1'', data_movimentacao = 9,
                      mov_tipo_movimentacao = ''E'', mov_quantidade = - 5\<rparr>],
                  mov_id_seq := 4\<rparr>)"
  by (simp add: scenario_db_def posting_def endpoint_defs Let_def)

text \<open>
  The direction, by contrast, is validated: a posting whose direction is neither \<open>'E'\<close>
  nor \<open>'S'\<close> fails with status 400 before any statement runs.
\<close>

lemma invalid_direction_rejected:
  assumes "mc_tipo_movimentacao mov \<notin> {''E'', ''S''}"
  shows "lancar_movimentacao now mov d =
           (Inl (HTTPException 400 Tipo_de_movimentacao_invalido), d)"
  using assms by (simp add: lancar_movimentacao_def)

text \<open>
  C5. When a posting with a positive quantity on a SKU with a product row and a balance
  row succeeds, its direction is \<open>'E'\<close> or \<open>'S'\<close>; the new balance it returns is the
  balance plus the quantity for \<open>'E'\<close> and the balance minus the quantity for \<open>'S'\<close>, and
  it is the balance stored afterwards; the alert is raised exactly when the direction is
  \<open>'S'\<close> and the new balance is below the minimum level of the product, so never on
  \<open>'E'\<close>.
\<close>

theorem posting_result:
  assumes "select_saldo d (mc_sku_id mov) = Some r"
      and "select_produto d (mc_sku_id mov) = Some p"
      and "0 < mc_quantidade mov"
      and "lancar_movimentacao now mov d = (Inr resp, d')"
  shows "(mc_tipo_movimentacao mov = ''E'' \<or> mc_tipo_movimentacao mov = ''S'') \<and>
         novo_saldo resp =
           (if mc_tipo_movimentacao mov = ''E'' then saldo_atual r + mc_quantidade mov
            else saldo_atual r - mc_quantidade mov) \<and>
         map_option saldo_atual (select_saldo d' (mc_sku_id mov)) = Some (novo_saldo resp) \<and>
         alerta_estoque_minimo resp =
           (mc_tipo_movimentacao mov = ''S'' \<and> novo_saldo resp < nivel_minimo p)"
  using assms
  by (auto simp: lancar_movimentacao_def Let_def fetch_saldo_def fetch_produto_def
        insert_movimentacao_def update_saldo_def select_saldo_with_saldo
        split: if_splits)

text \<open>
  At balance 3 and minimum 5: an entry of 10 gives 13 without alert, a withdrawal of 1
  gives 2 with the alert.
\<close>

theorem posting_result_witness:
  "lancar_movimentacao 9 (posting ''A1'' ''E'' 10) scenario_db =
     (Inr \<lparr>resp_tipo = ''E'', resp_sku = ''A1'', novo_saldo = 13,
           alerta_estoque_minimo = False\<rparr>,
      snd (lancar_movimentacao 9 (posting ''A1'' ''E'' 10) scenario_db)) \<and>
   map_option saldo_atual
     (select_saldo (snd (lancar_movimentacao 9 (posting ''A1'' ''E'' 10) scenario_db)) ''A1'')
     = Some 13 \<and>
   lancar_movimentacao 9 (posting ''A1'' ''S'' 1) scenario_db =
     (Inr \<lparr>resp_tipo = ''S'', resp_sku = ''A1'', novo_saldo = 2,
           alerta_estoque_minimo = True\<rparr>,
      snd (lancar_movimentacao 9 (posting ''A1'' ''S'' 1) scenario_db)) \<and>
   map_option saldo_atual
     (select_saldo (snd (lancar_movimentacao 9 (posting ''A1'' ''S'' 1) scenario_db)) ''A1'')
     = Some 2"
proof -
  let ?r = "\<lparr>saldo_sku_id = ''A1'', saldo_atual = 3, ultima_atualizacao = 3\<rparr>"
  let ?p = "\<lparr>produto_sku_id = ''A1'', produto_nome = ''Parafuso'',
            nivel_minimo = 5, nivel_maximo = 100, custo_fabricacao = 2\<rparr>"
  let ?e = "\<lparr>resp_tipo = ''E'', resp_sku = ''A1'', novo_saldo = 13,
            alerta_estoque_minimo = False\<rparr>"
  let ?s = "\<lparr>resp_tipo = ''S'', resp_sku = ''A1'', novo_saldo = 2,
            alerta_estoque_minimo = True\<rparr>"
  have e: "lancar_movimentacao 9 (posting ''A1'' ''E'' 10) scenario_db =
             (Inr ?e, snd (lancar_movimentacao 9 (posting ''A1'' ''E'' 10) scenario_db))"
    by (simp add: scenario_db_def posting_def endpoint_defs Let_def)
  have s: "lancar_movimentacao 9 (posting ''A1'' ''S'' 1) scenario_db =
             (Inr ?s, snd (lancar_movimentacao 9 (posting ''A1'' ''S'' 1) scenario_db))"
    by (simp add: scenario_db_def posting_def endpoint_defs Let_def)
  have sr: "select_saldo scenario_db (mc_sku_id (posting ''A1'' t q)) = Some ?r" for t q
    by (simp add: posting_def select_saldo_scenario)
  have sp: "select_produto scenario_db (mc_sku_id (posting ''A1'' t q)) = Some ?p" for t q
    by (simp add: posting_def select_produto_scenario)
  have qe: "0 < mc_quantidade (posting ''A1'' ''E'' 10)" by (simp add: posting_def)
  have qs: "0 < mc_quantidade (posting ''A1'' ''S'' 1)" by (simp add: posting_def)
  from posting_result[OF sr sp qe e] posting_result[OF sr sp qs s] e s
  show ?thesis by (simp add: posting_def)
qed

text \<open>
  C8, as stated, fails on two inputs without a balance row: a posting with direction
  \<open>'X'\<close> on the unregistered SKU \<open>ZZ\<close> fails with status 400 and the invalid-direction
  detail, and an entry on a SKU whose string holds a NUL byte fails with status 500,
  the driver refusing the query; neither is the 404 of a SKU not found.
\<close>

theorem unregistered_without_not_found:
  "select_saldo scenario_db ''ZZ'' = None \<and>
   lancar_movimentacao 9 (posting ''ZZ'' ''X'' 1) scenario_db =
     (Inl (HTTPException 400 Tipo_de_movimentacao_invalido), scenario_db) \<and>
   select_saldo scenario_db sku_nul = None \<and>
   lancar_movimentacao 9 (posting sku_nul ''E'' 1) scenario_db =
     (Inl (HTTPException 500 (Erro_no_banco_de_dados ValueError)), scenario_db)"
  by (simp add: scenario_db_def posting_def sku_nul_def lancar_movimentacao_def
        select_saldo_def fetch_saldo_def nul_free_def)

text \<open>
  C8, amended. A posting on a SKU without a balance row fails and leaves the database as
  it was, so no movement is added and no balance changed; the failure is 400, invalid
  direction, when the direction is neither \<open>'E'\<close> nor \<open>'S'\<close>; otherwise it is 404, SKU
  not found, unless the SKU holds a NUL byte, which the driver refuses: then it is 500.
\<close>

theorem unregistered_sku_rejected:
  assumes "select_saldo d (mc_sku_id mov) = None"
  shows "lancar_movimentacao now mov d =
           (Inl (if mc_tipo_movimentacao mov \<notin> {''E'', ''S''}
                 then HTTPException 400 Tipo_de_movimentacao_invalido
                 else if nul_free (mc_sku_id mov)
                 then HTTPException 404 SKU_nao_encontrado_no_saldo
                 else HTTPException 500 (Erro_no_banco_de_dados ValueError)), d)"
  using assms by (simp add: lancar_movimentacao_def fetch_saldo_def)

theorem unregistered_sku_rejected_witness:
  "select_saldo scenario_db (mc_sku_id (posting ''ZZ'' ''E'' 1)) = None \<and>
   lancar_movimentacao 9 (posting ''ZZ'' ''E'' 1) scenario_db =
     (Inl (HTTPException 404 SKU_nao_encontrado_no_saldo), scenario_db)"
  using unregistered_sku_rejected[of scenario_db "posting ''ZZ'' ''E'' 1" 9]
  by (simp add: posting_def scenario_db_def select_saldo_def nul_free_def)

subsection \<open>Registration\<close>



text \<open>
  C7. Registering a SKU that is registered already, one whose product query returns a
  row, fails with status 400 and the already-registered detail, and the database, so the
  product row and its balance row, is the one before the call.
\<close>

theorem duplicate_register_conflict:
  assumes "fetch_produto d (pc_sku_id produto) = Inr (Some p)"
  shows "cadastrar_produto now produto d = (Inl (HTTPException 400 SKU_ja_cadastrado), d)"
  using assms by (simp add: cadastrar_produto_def)

theorem duplicate_register_conflict_witness:
  "fetch_produto scenario_db (pc_sku_id produto_A1) =
     Inr (Some \<lparr>produto_sku_id = ''A1'', produto_nome = ''Parafuso'',
                nivel_minimo = 5, nivel_maximo = 100, custo_fabricacao = 2\<rparr>) \<and>
   cadastrar_produto 9 produto_A1 scenario_db =
     (Inl (HTTPException 400 SKU_ja_cadastrado), scenario_db)"
proof -
  have a: "fetch_produto scenario_db (pc_sku_id produto_A1) =
     Inr (Some \<lparr>produto_sku_id = ''A1'', produto_nome = ''Parafuso'',
                nivel_minimo = 5, nivel_maximo = 100, custo_fabricacao = 2\<rparr>)"
    by (simp add: produto_A1_def fetch_produto_scenario)
  from a duplicate_register_conflict[OF a, of 9] show ?thesis by simp
qed

subsection \<open>Reading a balance\<close>

lemma cadastrar_keeps_rows:
  assumes "select_produto d k \<noteq> None \<or> select_saldo d k \<noteq> None"
  shows "select_saldo (snd (cadastrar_produto now p d)) k = select_saldo d k \<and>
         select_produto (snd (cadastrar_produto now p d)) k = select_produto d k"
  using cadastrar_effect[of now p d]
proof
  assume "snd (cadastrar_produto now p d) = d"
  then show ?thesis by simp
next
  assume a: "select_produto d (pc_sku_id p) = None \<and> select_saldo d (pc_sku_id p) = None \<and>
    snd (cadastrar_produto now p d) =
      d\<lparr>tbl_produto := tbl_produto d @
           [\<lparr>produto_sku_id = pc_sku_id p, produto_nome = pc_nome p,
             nivel_minimo = pc_nivel_minimo p, nivel_maximo = pc_nivel_maximo p,
             custo_fabricacao = pc_custo_fabricacao p\<rparr>],
        tbl_saldo_estoque := tbl_saldo_estoque d @
           [\<lparr>saldo_sku_id = pc_sku_id p, saldo_atual = 0, ultima_atualizacao = now\<rparr>]\<rparr>"
  with assms have "k \<noteq> pc_sku_id p" by auto
  with a show ?thesis
    by (auto simp: select_produto_def select_saldo_def find_append split: option.splits)
qed

lemma consultar_saldo_reads: "snd (consultar_saldo k d) = d"
  by (simp add: consultar_saldo_def split: option.splits sum.splits)

lemma handle_keeps_rows:
  assumes "select_produto d k \<noteq> None \<or> select_saldo d k \<noteq> None" and "\<not> is_posting c"
  shows "select_saldo (handle now c d) k = select_saldo d k \<and>
         select_produto (handle now c d) k = select_produto d k"
  using assms
  by (cases c) (simp_all add: cadastrar_keeps_rows consultar_saldo_reads listar_produtos_def)

lemma serve_keeps_rows:
  assumes "select_produto d k \<noteq> None \<or> select_saldo d k \<noteq> None"
      and "\<forall>(now, c) \<in> set ops. \<not> is_posting c"
  shows "select_saldo (serve ops d) k = select_saldo d k"
  using assms
proof (induction ops arbitrary: d)
  case Nil
  then show ?case by simp
next
  case (Cons a ops)
  obtain now c where a: "a = (now, c)" by (cases a) auto
  from Cons.prems a have nc: "\<not> is_posting c" by simp
  from handle_keeps_rows[OF Cons.prems(1) nc, of now]
  have k: "select_saldo (handle now c d) k = select_saldo d k"
    and p: "select_produto (handle now c d) k = select_produto d k" by simp_all
  from Cons.prems(1) k p
  have r: "select_produto (handle now c d) k \<noteq> None \<or> select_saldo (handle now c d) k \<noteq> None"
    by simp
  from Cons.prems(2) have rest: "\<forall>(now, c) \<in> set ops. \<not> is_posting c" by simp
  from Cons.IH[OF r rest] k a show ?case by simp
qed

text \<open>
  C9. Reading a balance changes nothing in the database, and for a registered SKU a
  second read returns what the first returned, also when registrations and reads, but no
  posting, are handled in between.
\<close>

theorem get_balance_repeatable:
  assumes "select_produto d k \<noteq> None \<or> select_saldo d k \<noteq> None"
      and "\<forall>(now, c) \<in> set ops. \<not> is_posting c"
  shows "snd (consultar_saldo k d) = d \<and>
         fst (consultar_saldo k (serve ops (snd (consultar_saldo k d)))) =
           fst (consultar_saldo k d)"
  using serve_keeps_rows[OF assms]
  by (simp add: consultar_saldo_reads)
     (simp add: consultar_saldo_def fetch_saldo_def split: option.splits)

text \<open>Two reads of \<open>A1\<close> with a listing, a read and a refused registration in between.\<close>

theorem get_balance_repeatable_witness:
  "select_saldo scenario_db ''A1'' =
     Some \<lparr>saldo_sku_id = ''A1'', saldo_atual = 3, ultima_atualizacao = 3\<rparr> \<and>
   list_all (\<lambda>(now, c). \<not> is_posting c)
     [(6, ListProducts), (7, GetBalance ''A1''), (8, Register produto_A1)] \<and>
   snd (consultar_saldo ''A1'' scenario_db) = scenario_db \<and>
   fst (consultar_saldo ''A1''
         (serve [(6, ListProducts), (7, GetBalance ''A1''), (8, Register produto_A1)]
            (snd (consultar_saldo ''A1'' scenario_db)))) =
     Inr \<lparr>saldo_sku_id = ''A1'', saldo_atual = 3, ultima_atualizacao = 3\<rparr>"
proof -
  have reg: "select_produto scenario_db ''A1'' \<noteq> None \<or> select_saldo scenario_db ''A1'' \<noteq> None"
    by (simp add: select_produto_scenario)
  have np: "\<forall>(now, c) \<in> set [(6, ListProducts), (7, GetBalance ''A1''), (8, Register produto_A1)].
      \<not> is_posting c"
    by simp
  have first: "fst (consultar_saldo ''A1'' scenario_db) =
      Inr \<lparr>saldo_sku_id = ''A1'', saldo_atual = 3, ultima_atualizacao = 3\<rparr>"
    by (simp add: consultar_saldo_def fetch_saldo_scenario)
  from get_balance_repeatable[OF reg np] first show ?thesis
    by (simp add: consultar_saldo_reads select_saldo_scenario)
qed

subsection \<open>The maximum level\<close>

lemma find_same_but_maximo:
  assumes "list_all2 (\<lambda>p p'. p' = p\<lparr>nivel_maximo := nivel_maximo p'\<rparr>) xs ys"
  shows "rel_option (\<lambda>p p'. p' = p\<lparr>nivel_maximo := nivel_maximo p'\<rparr>)
           (find (\<lambda>r. produto_sku_id r = k) xs) (find (\<lambda>r. produto_sku_id r = k) ys)"
  using assms
proof (induction rule: list_all2_induct)
  case Nil
  then show ?case by simp
next
  case (Cons x xs y ys)
  from Cons(1) have "produto_sku_id y = produto_sku_id x"
    by (cases x, cases y) auto
  with Cons show ?case by simp
qed

lemma select_produto_same_but_maximo:
  assumes "same_but_maximo d d'"
  shows "(case select_produto d k of
            None \<Rightarrow> select_produto d' k = None
          | Some p \<Rightarrow> \<exists>p'. select_produto d' k = Some p' \<and> nivel_minimo p' = nivel_minimo p)"
proof -
  from assms have "rel_option (\<lambda>p p'. p' = p\<lparr>nivel_maximo := nivel_maximo p'\<rparr>)
      (select_produto d k) (select_produto d' k)"
    unfolding select_produto_def same_but_maximo_def by (auto intro: find_same_but_maximo)
  then show ?thesis
  proof (cases rule: option.rel_cases)
    case None
    then show ?thesis by simp
  next
    case (Some x y)
    from Some(3) have "nivel_minimo y = nivel_minimo x" by (cases x, cases y) auto
    with Some show ?thesis by simp
  qed
qed

lemma alert_same_but_maximo:
  assumes "same_but_maximo d d'"
  shows "(case fetch_produto d' k of
            Inl e \<Rightarrow> Inl e
          | Inr None \<Rightarrow> Inr False
          | Inr (Some produto_row) \<Rightarrow> Inr (novo < nivel_minimo produto_row)) =
         (case fetch_produto d k of
            Inl e \<Rightarrow> Inl e
          | Inr None \<Rightarrow> Inr False
          | Inr (Some produto_row) \<Rightarrow> Inr (novo < nivel_minimo produto_row))"
  using select_produto_same_but_maximo[OF assms, of k]
  by (auto simp: fetch_produto_def split: option.splits)

lemma fetch_saldo_same_but_maximo:
  "same_but_maximo d d' \<Longrightarrow> fetch_saldo d' k = fetch_saldo d k"
  by (simp add: same_but_maximo_def fetch_saldo_def select_saldo_def)

lemma insert_same_but_maximo:
  assumes "same_but_maximo d d'"
  shows "(case insert_movimentacao now k t q d of
            Inl e \<Rightarrow> insert_movimentacao now k t q d' = Inl e
          | Inr d1 \<Rightarrow> \<exists>d1'. insert_movimentacao now k t q d' = Inr d1' \<and>
                         same_but_maximo d1 d1')"
  using assms
  by (simp add: insert_movimentacao_def with_movimentacao_def same_but_maximo_def)

lemma update_same_but_maximo:
  assumes "same_but_maximo d d'"
  shows "(case update_saldo k v now d of
            Inl e \<Rightarrow> update_saldo k v now d' = Inl e
          | Inr d2 \<Rightarrow> \<exists>d2'. update_saldo k v now d' = Inr d2' \<and> same_but_maximo d2 d2')"
  using assms
  by (simp add: update_saldo_def with_saldo_def same_but_maximo_def)

lemma rollback_same_but_maximo:
  "same_but_maximo d d' \<Longrightarrow> same_but_maximo w w' \<Longrightarrow>
   same_but_maximo (rollback d w) (rollback d' w')"
  by (simp add: same_but_maximo_def rollback_def)

lemma lancar_same_but_maximo:
  assumes r: "same_but_maximo d d'"
  shows "fst (lancar_movimentacao now mov d') = fst (lancar_movimentacao now mov d) \<and>
         same_but_maximo (snd (lancar_movimentacao now mov d))
                         (snd (lancar_movimentacao now mov d'))"
proof (cases "mc_tipo_movimentacao mov \<in> set [''E'', ''S'']")
  case False
  with r show ?thesis by (simp add: lancar_invalid)
next
  case tp: True
  note fs = fetch_saldo_same_but_maximo[OF r, of "mc_sku_id mov"]
  show ?thesis
  proof (cases "fetch_saldo d (mc_sku_id mov)")
    case (Inl e)
    with r tp fs show ?thesis by (simp add: lancar_refused)
  next
    case (Inr found)
    show ?thesis
    proof (cases found)
      case None
      with Inr r tp fs show ?thesis by (simp add: lancar_not_found)
    next
      case (Some row)
      let ?c = "if mc_tipo_movimentacao mov = ''E''
                then Inr (saldo_atual row + mc_quantidade mov)
                else if mc_tipo_movimentacao mov = ''S''
                then (if mc_quantidade mov > saldo_atual row
                      then Inl (HTTPException 400
                             (Estoque_insuficiente_Saldo_atual (saldo_atual row)))
                      else Inr (saldo_atual row - mc_quantidade mov))
                else Inr 0"
      from Inr Some fs have f: "fetch_saldo d (mc_sku_id mov) = Inr (Some row)"
        and f': "fetch_saldo d' (mc_sku_id mov) = Inr (Some row)" by simp_all
      show ?thesis
      proof (cases ?c)
        case (Inl e)
        with r tp f f' show ?thesis by (simp add: lancar_movimentacao_def)
      next
        case novo: (Inr novo)
        show ?thesis
        proof (cases "insert_movimentacao now (mc_sku_id mov)
                        (mc_tipo_movimentacao mov) (mc_quantidade mov) d")
          case (Inl e)
          with insert_same_but_maximo[OF r, of now "mc_sku_id mov"
                 "mc_tipo_movimentacao mov" "mc_quantidade mov"]
          have "insert_movimentacao now (mc_sku_id mov)
                  (mc_tipo_movimentacao mov) (mc_quantidade mov) d' = Inl e" by simp
          with Inl novo r tp f f' show ?thesis by (simp add: lancar_movimentacao_def)
        next
          case d1: (Inr d1)
          with insert_same_but_maximo[OF r, of now "mc_sku_id mov"
                 "mc_tipo_movimentacao mov" "mc_quantidade mov"]
          obtain d1' where d1': "insert_movimentacao now (mc_sku_id mov)
                  (mc_tipo_movimentacao mov) (mc_quantidade mov) d' = Inr d1'"
            and r1: "same_but_maximo d1 d1'" by auto
          show ?thesis
          proof (cases "update_saldo (mc_sku_id mov) novo now d1")
            case (Inl e)
            with update_same_but_maximo[OF r1, of "mc_sku_id mov" novo now]
            have "update_saldo (mc_sku_id mov) novo now d1' = Inl e" by simp
            with Inl d1 d1' novo tp f f' rollback_same_but_maximo[OF r r1] show ?thesis
              by (simp add: lancar_movimentacao_def)
          next
            case d2: (Inr d2)
            with update_same_but_maximo[OF r1, of "mc_sku_id mov" novo now]
            obtain d2' where d2': "update_saldo (mc_sku_id mov) novo now d1' = Inr d2'"
              and r2: "same_but_maximo d2 d2'" by auto
            from d2 d2' d1 d1' novo tp f f' r2
              alert_same_but_maximo[OF r2, where k = "mc_sku_id mov" and novo = novo]
            show ?thesis
              by (simp add: lancar_movimentacao_def split: sum.splits)
          qed
        qed
      qed
    qed
  qed
qed

lemma concat_join_same_but_maximo:
  assumes "list_all2 (\<lambda>p p'. p' = p\<lparr>nivel_maximo := nivel_maximo p'\<rparr>) xs ys"
  shows "concat (map (\<lambda>p. map (\<lambda>s. \<lparr>item_SKU = produto_sku_id p, item_Nome = produto_nome p,
                                 item_Saldo_Atual = saldo_atual s,
                                 item_Nivel_Minimo = nivel_minimo p,
                                 item_Custo = custo_fabricacao p,
                                 item_Ultima_Atualizacao = ultima_atualizacao s\<rparr>)
                          (filter (\<lambda>s. saldo_sku_id s = produto_sku_id p) ss)) ys)
       = concat (map (\<lambda>p. map (\<lambda>s. \<lparr>item_SKU = produto_sku_id p, item_Nome = produto_nome p,
                                 item_Saldo_Atual = saldo_atual s,
                                 item_Nivel_Minimo = nivel_minimo p,
                                 item_Custo = custo_fabricacao p,
                                 item_Ultima_Atualizacao = ultima_atualizacao s\<rparr>)
                          (filter (\<lambda>s. saldo_sku_id s = produto_sku_id p) ss)) xs)"
  using assms
proof (induction rule: list_all2_induct)
  case Nil
  then show ?case by simp
next
  case (Cons x xs y ys)
  from Cons(1) have "produto_sku_id y = produto_sku_id x" "produto_nome y = produto_nome x"
     "nivel_minimo y = nivel_minimo x" "custo_fabricacao y = custo_fabricacao x"
    by (cases x, cases y, auto)+
  with Cons show ?case by simp
qed

lemma listar_same_but_maximo:
  "same_but_maximo d d' \<Longrightarrow> fst (listar_produtos d') = fst (listar_produtos d)"
  using concat_join_same_but_maximo[of "tbl_produto d" "tbl_produto d'" "tbl_saldo_estoque d"]
  by (simp add: listar_produtos_def same_but_maximo_def)

text \<open>What an entry on a registered SKU does, by the range of its values.\<close>

lemma entry_outcome:
  assumes "fetch_saldo d (mc_sku_id mov) = Inr (Some row)"
      and "mc_tipo_movimentacao mov = ''E''"
  shows "lancar_movimentacao now mov d =
    (if int4 (mc_quantidade mov) \<and> mov_id_seq d \<le> 2147483647
     then (if int4 (saldo_atual row + mc_quantidade mov)
           then (Inr \<lparr>resp_tipo = ''E'', resp_sku = mc_sku_id mov,
                      novo_saldo = saldo_atual row + mc_quantidade mov,
                      alerta_estoque_minimo = False\<rparr>,
                 with_saldo (mc_sku_id mov) (saldo_atual row + mc_quantidade mov) now
                   (with_movimentacao now (mc_sku_id mov) ''E'' (mc_quantidade mov) d))
           else (Inl (HTTPException 500 (Erro_no_banco_de_dados DataError)),
                 d\<lparr>mov_id_seq := Suc (mov_id_seq d)\<rparr>))
     else (Inl (HTTPException 500 (Erro_no_banco_de_dados DataError)), d))"
  using assms
  by (auto simp: lancar_movimentacao_def Let_def fetch_saldo_def insert_movimentacao_def
        update_saldo_def rollback_def with_movimentacao_def split: if_splits)

text \<open>
  C10, as stated, fails at the end of the column: with maximum level 100 and balance
  2147483647, an entry of 1 does not raise the balance; the call fails with status 500,
  the balance row and the movement log are as before.
\<close>

theorem entry_beyond_column_fails:
  "fetch_saldo full_db ''A1'' =
     Inr (Some \<lparr>saldo_sku_id = ''A1'', saldo_atual = 2147483647, ultima_atualizacao = 2\<rparr>) \<and>
   fst (lancar_movimentacao 9 (posting ''A1'' ''E'' 1) full_db) =
     Inl (HTTPException 500 (Erro_no_banco_de_dados DataError)) \<and>
   tbl_saldo_estoque (snd (lancar_movimentacao 9 (posting ''A1'' ''E'' 1) full_db)) =
     [\<lparr>saldo_sku_id = ''A1'', saldo_atual = 2147483647, ultima_atualizacao = 2\<rparr>] \<and>
   tbl_movimentacao_estoque (snd (lancar_movimentacao 9 (posting ''A1'' ''E'' 1) full_db)) =
     tbl_movimentacao_estoque full_db"
  by (simp add: full_db_def posting_def endpoint_defs Let_def)

text \<open>
  C10, amended. The maximum level is never consulted: on two states that differ only in
  maximum levels, a posting returns the same outcome and leaves two states that again
  differ only in maximum levels, and reading a balance and listing the products return
  the same and change nothing. An entry on a registered SKU whose quantity and new
  balance fit 32 bits, with a number left in the sequence, succeeds without alert,
  appends its movement and stores the balance plus the quantity, whatever the maximum
  level is; any other entry on a registered SKU fails with status 500 and leaves the
  three tables as they were.
\<close>

theorem nivel_maximo_never_read:
  assumes "same_but_maximo d d'"
  shows "fst (lancar_movimentacao now mov d') = fst (lancar_movimentacao now mov d) \<and>
         same_but_maximo (snd (lancar_movimentacao now mov d))
                         (snd (lancar_movimentacao now mov d')) \<and>
         fst (consultar_saldo k d') = fst (consultar_saldo k d) \<and>
         snd (consultar_saldo k d) = d \<and> snd (consultar_saldo k d') = d' \<and>
         fst (listar_produtos d') = fst (listar_produtos d) \<and>
         snd (listar_produtos d) = d \<and> snd (listar_produtos d') = d' \<and>
         (\<forall>row. fetch_saldo d (mc_sku_id mov) = Inr (Some row) \<and>
                mc_tipo_movimentacao mov = ''E'' \<longrightarrow>
            (if int4 (mc_quantidade mov) \<and> int4 (saldo_atual row + mc_quantidade mov) \<and>
                mov_id_seq d \<le> 2147483647
             then fst (lancar_movimentacao now mov d) =
                    Inr \<lparr>resp_tipo = ''E'', resp_sku = mc_sku_id mov,
                         novo_saldo = saldo_atual row + mc_quantidade mov,
                         alerta_estoque_minimo = False\<rparr> \<and>
                  select_saldo (snd (lancar_movimentacao now mov d)) (mc_sku_id mov) =
                    Some (row\<lparr>saldo_atual := saldo_atual row + mc_quantidade mov,
                              ultima_atualizacao := now\<rparr>) \<and>
                  tbl_movimentacao_estoque (snd (lancar_movimentacao now mov d)) =
                    tbl_movimentacao_estoque d @
                      [\<lparr>mov_id = mov_id_seq d, mov_sku_id = mc_sku_id mov,
                        data_movimentacao = now, mov_tipo_movimentacao = ''E'',
                        mov_quantidade = mc_quantidade mov\<rparr>]
             else fst (lancar_movimentacao now mov d) =
                    Inl (HTTPException 500 (Erro_no_banco_de_dados DataError)) \<and>
                  tbl_produto (snd (lancar_movimentacao now mov d)) = tbl_produto d \<and>
                  tbl_saldo_estoque (snd (lancar_movimentacao now mov d)) =
                    tbl_saldo_estoque d \<and>
                  tbl_movimentacao_estoque (snd (lancar_movimentacao now mov d)) =
                    tbl_movimentacao_estoque d))"
proof -
  have reads: "fst (consultar_saldo k d') = fst (consultar_saldo k d)"
    using assms
    by (simp add: consultar_saldo_def fetch_saldo_same_but_maximo
          split: option.splits sum.splits)
  have entry: "\<forall>row. fetch_saldo d (mc_sku_id mov) = Inr (Some row) \<and>
                mc_tipo_movimentacao mov = ''E'' \<longrightarrow>
            (if int4 (mc_quantidade mov) \<and> int4 (saldo_atual row + mc_quantidade mov) \<and>
                mov_id_seq d \<le> 2147483647
             then fst (lancar_movimentacao now mov d) =
                    Inr \<lparr>resp_tipo = ''E'', resp_sku = mc_sku_id mov,
                         novo_saldo = saldo_atual row + mc_quantidade mov,
                         alerta_estoque_minimo = False\<rparr> \<and>
                  select_saldo (snd (lancar_movimentacao now mov d)) (mc_sku_id mov) =
                    Some (row\<lparr>saldo_atual := saldo_atual row + mc_quantidade mov,
                              ultima_atualizacao := now\<rparr>) \<and>
                  tbl_movimentacao_estoque (snd (lancar_movimentacao now mov d)) =
                    tbl_movimentacao_estoque d @
                      [\<lparr>mov_id = mov_id_seq d, mov_sku_id = mc_sku_id mov,
                        data_movimentacao = now, mov_tipo_movimentacao = ''E'',
                        mov_quantidade = mc_quantidade mov\<rparr>]
             else fst (lancar_movimentacao now mov d) =
                    Inl (HTTPException 500 (Erro_no_banco_de_dados DataError)) \<and>
                  tbl_produto (snd (lancar_movimentacao now mov d)) = tbl_produto d \<and>
                  tbl_saldo_estoque (snd (lancar_movimentacao now mov d)) =
                    tbl_saldo_estoque d \<and>
                  tbl_movimentacao_estoque (snd (lancar_movimentacao now mov d)) =
                    tbl_movimentacao_estoque d)"
  proof (intro allI impI)
    fix row
    assume a: "fetch_saldo d (mc_sku_id mov) = Inr (Some row) \<and>
                mc_tipo_movimentacao mov = ''E''"
    then have sel: "select_saldo d (mc_sku_id mov) = Some row"
      by (simp add: fetch_saldo_def split: if_splits)
    from entry_outcome[OF conjunct1[OF a] conjunct2[OF a], of now] sel
    show "if int4 (mc_quantidade mov) \<and> int4 (saldo_atual row + mc_quantidade mov) \<and>
                mov_id_seq d \<le> 2147483647
             then fst (lancar_movimentacao now mov d) =
                    Inr \<lparr>resp_tipo = ''E'', resp_sku = mc_sku_id mov,
                         novo_saldo = saldo_atual row + mc_quantidade mov,
                         alerta_estoque_minimo = False\<rparr> \<and>
                  select_saldo (snd (lancar_movimentacao now mov d)) (mc_sku_id mov) =
                    Some (row\<lparr>saldo_atual := saldo_atual row + mc_quantidade mov,
                              ultima_atualizacao := now\<rparr>) \<and>
                  tbl_movimentacao_estoque (snd (lancar_movimentacao now mov d)) =
                    tbl_movimentacao_estoque d @
                      [\<lparr>mov_id = mov_id_seq d, mov_sku_id = mc_sku_id mov,
                        data_movimentacao = now, mov_tipo_movimentacao = ''E'',
                        mov_quantidade = mc_quantidade mov\<rparr>]
             else fst (lancar_movimentacao now mov d) =
                    Inl (HTTPException 500 (Erro_no_banco_de_dados DataError)) \<and>
                  tbl_produto (snd (lancar_movimentacao now mov d)) = tbl_produto d \<and>
                  tbl_saldo_estoque (snd (lancar_movimentacao now mov d)) =
                    tbl_saldo_estoque d \<and>
                  tbl_movimentacao_estoque (snd (lancar_movimentacao now mov d)) =
                    tbl_movimentacao_estoque d"
      by (simp add: select_saldo_with_saldo) (simp add: with_saldo_def with_movimentacao_def)
  qed
  from reads entry lancar_same_but_maximo[OF assms, of now mov] listar_same_but_maximo[OF assms]
  show ?thesis
    by (simp add: consultar_saldo_reads listar_produtos_def)
qed

text \<open>
  An entry of 1000 on \<open>A1\<close> at balance 3, with maximum 100 and with maximum 1: 1003 in
  both, stored, no alert.
\<close>

theorem nivel_maximo_never_read_witness:
  "same_but_maximo scenario_db scenario_db_max1 \<and>
   fst (lancar_movimentacao 9 (posting ''A1'' ''E'' 1000) scenario_db_max1) =
     fst (lancar_movimentacao 9 (posting ''A1'' ''E'' 1000) scenario_db) \<and>
   fetch_saldo scenario_db (mc_sku_id (posting ''A1'' ''E'' 1000)) =
     Inr (Some \<lparr>saldo_sku_id = ''A1'', saldo_atual = 3, ultima_atualizacao = 3\<rparr>) \<and>
   fst (lancar_movimentacao 9 (posting ''A1'' ''E'' 1000) scenario_db) =
     Inr \<lparr>resp_tipo = ''E'', resp_sku = ''A1'', novo_saldo = 1003,
          alerta_estoque_minimo = False\<rparr> \<and>
   select_saldo (snd (lancar_movimentacao 9 (posting ''A1'' ''E'' 1000) scenario_db)) ''A1'' =
     Some \<lparr>saldo_sku_id = ''A1'', saldo_atual = 1003, ultima_atualizacao = 9\<rparr>"
proof -
  have rel: "same_but_maximo scenario_db scenario_db_max1"
    by (simp add: same_but_maximo_def scenario_db_max1_def scenario_db_def)
  have row: "fetch_saldo scenario_db (mc_sku_id (posting ''A1'' ''E'' 1000)) =
     Inr (Some \<lparr>saldo_sku_id = ''A1'', saldo_atual = 3, ultima_atualizacao = 3\<rparr>)"
    by (simp add: posting_def fetch_saldo_scenario)
  have fits: "int4 (mc_quantidade (posting ''A1'' ''E'' 1000)) \<and>
     int4 (3 + mc_quantidade (posting ''A1'' ''E'' 1000)) \<and>
     mov_id_seq scenario_db \<le> 2147483647"
    by (simp add: posting_def int4_def scenario_db_def)
  from nivel_maximo_never_read[OF rel, of 9 "posting ''A1'' ''E'' 1000" "''A1''"] rel row fits
  show ?thesis by (simp add: posting_def)
qed

subsection \<open>Two concurrent withdrawals\<close>

lemma withdraw_accepted:
  assumes "fetch_saldo d k = Inr (Some row)"
      and "int4 (saldo_atual row)" and "mov_id_seq d \<le> 2147483647"
      and "0 < q" and "q \<le> saldo_atual row"
  shows "lancar_movimentacao n (posting k ''S'' q) d =
     (Inr \<lparr>resp_tipo = ''S'', resp_sku = k, novo_saldo = saldo_atual row - q,
            alerta_estoque_minimo =
              (case select_produto d k of None \<Rightarrow> False
               | Some p \<Rightarrow> saldo_atual row - q < nivel_minimo p)\<rparr>,
      with_saldo k (saldo_atual row - q) n (with_movimentacao n k ''S'' q d))"
  using assms
  by (auto simp: lancar_movimentacao_def posting_def Let_def fetch_saldo_def fetch_produto_def
        insert_movimentacao_def update_saldo_def int4_def
        split: if_splits option.splits)

lemma fetch_saldo_after_withdrawal:
  assumes "fetch_saldo d k = Inr (Some row)"
  shows "fetch_saldo (with_saldo k v n (with_movimentacao n k t q d)) k =
           Inr (Some (row\<lparr>saldo_atual := v, ultima_atualizacao := n\<rparr>))"
  using assms by (simp add: fetch_saldo_def select_saldo_with_saldo split: if_splits)

text \<open>Two withdrawals of the same SKU made one after the other.\<close>

lemma withdrawals_in_order:
  assumes row: "fetch_saldo d0 k = Inr (Some row)"
      and fits: "int4 (saldo_atual row)" "mov_id_seq d0 \<le> 2147483647"
      and pos: "0 < qa" "0 < qb"
      and over: "qa + qb > saldo_atual row"
      and ra: "ra = fst (lancar_movimentacao na (posting k ''S'' qa) d0)"
      and rb: "rb = fst (lancar_movimentacao nb (posting k ''S'' qb)
                      (snd (lancar_movimentacao na (posting k ''S'' qa) d0)))"
      and d: "d = snd (lancar_movimentacao nb (posting k ''S'' qb)
                      (snd (lancar_movimentacao na (posting k ''S'' qa) d0)))"
  shows "if saldo_atual row < qa \<and> saldo_atual row < qb
         then ra = Inl (HTTPException 400 (Estoque_insuficiente_Saldo_atual (saldo_atual row))) \<and>
              rb = Inl (HTTPException 400 (Estoque_insuficiente_Saldo_atual (saldo_atual row))) \<and>
              d = d0
         else ((\<exists>resp. ra = Inr resp \<and> novo_saldo resp = saldo_atual row - qa) \<and>
               (\<exists>s. rb = Inl (HTTPException 400 (Estoque_insuficiente_Saldo_atual s))) \<and>
               map_option saldo_atual (select_saldo d k) = Some (saldo_atual row - qa) \<and>
               0 \<le> saldo_atual row - qa) \<or>
              ((\<exists>resp. rb = Inr resp \<and> novo_saldo resp = saldo_atual row - qb) \<and>
               (\<exists>s. ra = Inl (HTTPException 400 (Estoque_insuficiente_Saldo_atual s))) \<and>
               map_option saldo_atual (select_saldo d k) = Some (saldo_atual row - qb) \<and>
               0 \<le> saldo_atual row - qb)"
proof -
  let ?b = "saldo_atual row"
  have rej: "fetch_saldo d' k = Inr (Some row') \<Longrightarrow> saldo_atual row' < q \<Longrightarrow>
      lancar_movimentacao n (posting k ''S'' q) d' =
        (Inl (HTTPException 400 (Estoque_insuficiente_Saldo_atual (saldo_atual row'))), d')"
    for d' row' q n
    using withdraw_rejected[of d' "posting k ''S'' q" row' n] by (simp add: posting_def)
  show ?thesis
  proof (cases "?b < qa")
    case True
    note first = rej[OF row True, of na]
    show ?thesis
    proof (cases "?b < qb")
      case both: True
      with True first rej[OF row both, of nb] ra rb d show ?thesis by simp
    next
      case False
      then have le: "qb \<le> ?b" by simp
      from withdraw_accepted[OF row fits pos(2) le, of nb] first True False ra rb d
      show ?thesis by (simp add: select_saldo_with_saldo) (use row in
        \<open>simp add: fetch_saldo_def split: if_splits\<close>)
    qed
  next
    case False
    then have le: "qa \<le> ?b" by simp
    note first = withdraw_accepted[OF row fits pos(1) le, of na]
    let ?row' = "row\<lparr>saldo_atual := ?b - qa, ultima_atualizacao := na\<rparr>"
    have row': "fetch_saldo (with_saldo k (?b - qa) na (with_movimentacao na k ''S'' qa d0)) k =
                  Inr (Some ?row')"
      using row by (rule fetch_saldo_after_withdrawal)
    have less: "saldo_atual ?row' < qb" using over by simp
    from rej[OF row' less, of nb] first False le ra rb d row' show ?thesis
      by (simp add: fetch_saldo_def split: if_splits)
  qed
qed

text \<open>
  C2, as stated, fails when each quantity alone exceeds the balance: two withdrawals of
  50 of \<open>A1\<close> at balance 3, the second asking for the lock while the first holds it, both
  fail with insufficient stock, and the database is unchanged.
\<close>

theorem both_withdrawals_fail:
  "(50::int) + 50 > 3 \<and>
   fetch_saldo scenario_db ''A1'' =
     Inr (Some \<lparr>saldo_sku_id = ''A1'', saldo_atual = 3, ultima_atualizacao = 3\<rparr>) \<and>
   run_schedule contended
     (scenario_db, Start 10 (posting ''A1'' ''S'' 50), Start 11 (posting ''A1'' ''S'' 50)) =
     (scenario_db,
      Done (Inl (HTTPException 400 (Estoque_insuficiente_Saldo_atual 3))),
      Done (Inl (HTTPException 400 (Estoque_insuficiente_Saldo_atual 3))))"
  by (simp add: contended_def posting_def fetch_saldo_scenario nul_free_def)

text \<open>
  C2, amended. Two sessions withdraw positive quantities \<open>q1\<close> and \<open>q2\<close> of the same
  registered SKU, whose balance is below \<open>q1 + q2\<close>; the balance is a value of its
  column and the sequence has a number left. After any schedule, nine more turns let
  both sessions return. Whenever both have returned, outcomes and final state are those
  of the two calls made one after the other, in one of the two orders. If each quantity
  alone exceeds the balance, both calls fail with insufficient stock, reporting the
  balance, and the database is unchanged; otherwise exactly one call succeeds and the
  other fails with insufficient stock, and the balance stored is the initial balance
  minus the quantity of the call that succeeded, and not negative.
\<close>

theorem one_withdrawal_wins:
  assumes row: "fetch_saldo d0 k = Inr (Some row)"
      and fits: "int4 (saldo_atual row)" "mov_id_seq d0 \<le> 2147483647"
      and pos: "0 < q1" "0 < q2"
      and over: "q1 + q2 > saldo_atual row"
  shows "(\<exists>d r1 r2.
            run_schedule (ts @ finish)
              (d0, Start n1 (posting k ''S'' q1), Start n2 (posting k ''S'' q2)) =
            (d, Done r1, Done r2)) \<and>
         (\<forall>d r1 r2.
            run_schedule ts
              (d0, Start n1 (posting k ''S'' q1), Start n2 (posting k ''S'' q2)) =
            (d, Done r1, Done r2) \<longrightarrow>
            ((r1 = fst (lancar_movimentacao n1 (posting k ''S'' q1) d0) \<and>
              r2 = fst (lancar_movimentacao n2 (posting k ''S'' q2)
                          (snd (lancar_movimentacao n1 (posting k ''S'' q1) d0))) \<and>
              d = snd (lancar_movimentacao n2 (posting k ''S'' q2)
                         (snd (lancar_movimentacao n1 (posting k ''S'' q1) d0)))) \<or>
             (r2 = fst (lancar_movimentacao n2 (posting k ''S'' q2) d0) \<and>
              r1 = fst (lancar_movimentacao n1 (posting k ''S'' q1)
                          (snd (lancar_movimentacao n2 (posting k ''S'' q2) d0))) \<and>
              d = snd (lancar_movimentacao n1 (posting k ''S'' q1)
                         (snd (lancar_movimentacao n2 (posting k ''S'' q2) d0))))) \<and>
            (if saldo_atual row < q1 \<and> saldo_atual row < q2
             then r1 = Inl (HTTPException 400
                             (Estoque_insuficiente_Saldo_atual (saldo_atual row))) \<and>
                  r2 = Inl (HTTPException 400
                             (Estoque_insuficiente_Saldo_atual (saldo_atual row))) \<and>
                  d = d0
             else ((\<exists>resp. r1 = Inr resp \<and> novo_saldo resp = saldo_atual row - q1) \<and>
                   (\<exists>s. r2 = Inl (HTTPException 400 (Estoque_insuficiente_Saldo_atual s))) \<and>
                   map_option saldo_atual (select_saldo d k) = Some (saldo_atual row - q1) \<and>
                   0 \<le> saldo_atual row - q1) \<or>
                  ((\<exists>resp. r2 = Inr resp \<and> novo_saldo resp = saldo_atual row - q2) \<and>
                   (\<exists>s. r1 = Inl (HTTPException 400 (Estoque_insuficiente_Saldo_atual s))) \<and>
                   map_option saldo_atual (select_saldo d k) = Some (saldo_atual row - q2) \<and>
                   0 \<le> saldo_atual row - q2)))"
proof (intro conjI allI impI)
  let ?init = "(d0, Start n1 (posting k ''S'' q1), Start n2 (posting k ''S'' q2))"
  from finish_returns[of "run_schedule ts ?init"]
  show "\<exists>d r1 r2. run_schedule (ts @ finish) ?init = (d, Done r1, Done r2)"
    by (simp add: run_schedule_append)
next
  fix d r1 r2
  assume run: "run_schedule ts
      (d0, Start n1 (posting k ''S'' q1), Start n2 (posting k ''S'' q2)) = (d, Done r1, Done r2)"
  have same: "mc_sku_id (posting k ''S'' q1) = mc_sku_id (posting k ''S'' q2)"
    by (simp add: posting_def)
  note serial = serializable[OF same run]
  from serial
  show "(r1 = fst (lancar_movimentacao n1 (posting k ''S'' q1) d0) \<and>
         r2 = fst (lancar_movimentacao n2 (posting k ''S'' q2)
                     (snd (lancar_movimentacao n1 (posting k ''S'' q1) d0))) \<and>
         d = snd (lancar_movimentacao n2 (posting k ''S'' q2)
                    (snd (lancar_movimentacao n1 (posting k ''S'' q1) d0)))) \<or>
        (r2 = fst (lancar_movimentacao n2 (posting k ''S'' q2) d0) \<and>
         r1 = fst (lancar_movimentacao n1 (posting k ''S'' q1)
                     (snd (lancar_movimentacao n2 (posting k ''S'' q2) d0))) \<and>
         d = snd (lancar_movimentacao n1 (posting k ''S'' q1)
                    (snd (lancar_movimentacao n2 (posting k ''S'' q2) d0))))" .
  from serial
  show "if saldo_atual row < q1 \<and> saldo_atual row < q2
        then r1 = Inl (HTTPException 400
                        (Estoque_insuficiente_Saldo_atual (saldo_atual row))) \<and>
             r2 = Inl (HTTPException 400
                        (Estoque_insuficiente_Saldo_atual (saldo_atual row))) \<and>
             d = d0
        else ((\<exists>resp. r1 = Inr resp \<and> novo_saldo resp = saldo_atual row - q1) \<and>
              (\<exists>s. r2 = Inl (HTTPException 400 (Estoque_insuficiente_Saldo_atual s))) \<and>
              map_option saldo_atual (select_saldo d k) = Some (saldo_atual row - q1) \<and>
              0 \<le> saldo_atual row - q1) \<or>
             ((\<exists>resp. r2 = Inr resp \<and> novo_saldo resp = saldo_atual row - q2) \<and>
              (\<exists>s. r1 = Inl (HTTPException 400 (Estoque_insuficiente_Saldo_atual s))) \<and>
              map_option saldo_atual (select_saldo d k) = Some (saldo_atual row - q2) \<and>
              0 \<le> saldo_atual row - q2)"
  proof
    assume s: "r1 = fst (lancar_movimentacao n1 (posting k ''S'' q1) d0) \<and>
         r2 = fst (lancar_movimentacao n2 (posting k ''S'' q2)
                     (snd (lancar_movimentacao n1 (posting k ''S'' q1) d0))) \<and>
         d = snd (lancar_movimentacao n2 (posting k ''S'' q2)
                    (snd (lancar_movimentacao n1 (posting k ''S'' q1) d0)))"
    from withdrawals_in_order[OF row fits pos over, of r1 n1 r2 n2 d] s
    show ?thesis by simp
  next
    assume s: "r2 = fst (lancar_movimentacao n2 (posting k ''S'' q2) d0) \<and>
         r1 = fst (lancar_movimentacao n1 (posting k ''S'' q1)
                     (snd (lancar_movimentacao n2 (posting k ''S'' q2) d0))) \<and>
         d = snd (lancar_movimentacao n1 (posting k ''S'' q1)
                    (snd (lancar_movimentacao n2 (posting k ''S'' q2) d0)))"
    from over have over': "q2 + q1 > saldo_atual row" by simp
    from withdrawals_in_order[OF row fits pos(2) pos(1) over', of r2 n2 r1 n1 d] s
    show ?thesis by (simp split: if_splits) blast
  qed
qed

text \<open>
  Two withdrawals of 2 of \<open>A1\<close> at balance 3 under the contended schedule: the first
  succeeds and leaves 1, the second fails; after the nine further turns both have
  returned.
\<close>

theorem one_withdrawal_wins_witness:
  "fetch_saldo scenario_db ''A1'' =
     Inr (Some \<lparr>saldo_sku_id = ''A1'', saldo_atual = 3, ultima_atualizacao = 3\<rparr>) \<and>
   int4 3 \<and> mov_id_seq scenario_db \<le> 2147483647 \<and> (2::int) + 2 > 3 \<and>
   run_schedule contended
     (scenario_db, Start 10 (posting ''A1'' ''S'' 2), Start 11 (posting ''A1'' ''S'' 2)) =
     (fst (run_schedule contended
        (scenario_db, Start 10 (posting ''A1'' ''S'' 2), Start 11 (posting ''A1'' ''S'' 2))),
      Done (Inr \<lparr>resp_tipo = ''S'', resp_sku = ''A1'', novo_saldo = 1,
                 alerta_estoque_minimo = True\<rparr>),
      Done (Inl (HTTPException 400 (Estoque_insuficiente_Saldo_atual 1)))) \<and>
   map_option saldo_atual
     (select_saldo (fst (run_schedule contended
        (scenario_db, Start 10 (posting ''A1'' ''S'' 2), Start 11 (posting ''A1'' ''S'' 2))))
        ''A1'') = Some 1 \<and>
   (\<exists>d r1 r2. run_schedule (contended @ finish)
       (scenario_db, Start 10 (posting ''A1'' ''S'' 2), Start 11 (posting ''A1'' ''S'' 2)) =
       (d, Done r1, Done r2))"
proof -
  let ?row = "\<lparr>saldo_sku_id = ''A1'', saldo_atual = 3, ultima_atualizacao = 3\<rparr>"
  let ?c = "run_schedule contended
     (scenario_db, Start 10 (posting ''A1'' ''S'' 2), Start 11 (posting ''A1'' ''S'' 2))"
  have run: "?c =
     (fst ?c,
      Done (Inr \<lparr>resp_tipo = ''S'', resp_sku = ''A1'', novo_saldo = 1,
                 alerta_estoque_minimo = True\<rparr>),
      Done (Inl (HTTPException 400 (Estoque_insuficiente_Saldo_atual 1))))"
    by (simp add: contended_def posting_def scenario_db_def endpoint_defs)
  have fits: "int4 (saldo_atual ?row)" "mov_id_seq scenario_db \<le> 2147483647"
    by (simp_all add: int4_def scenario_db_def)
  have pos: "(0::int) < 2" by simp
  have over: "(2::int) + 2 > saldo_atual ?row" by simp
  note inst = one_withdrawal_wins[OF fetch_saldo_scenario fits pos pos over,
      of contended 10 11]
  from inst have fin: "\<exists>d r1 r2. run_schedule (contended @ finish)
       (scenario_db, Start 10 (posting ''A1'' ''S'' 2), Start 11 (posting ''A1'' ''S'' 2)) =
       (d, Done r1, Done r2)"
    by (rule conjunct1)
  from conjunct2[OF inst] run
  have "map_option saldo_atual (select_saldo (fst ?c) ''A1'') = Some 1"
    by (auto dest!: spec[of _ "fst ?c"])
  with run fin fits show ?thesis
    by (simp add: fetch_saldo_scenario)
qed

end
